theory Spec2Isabelle
  imports Main
begin

section \<open>JavaScript string primitives\<close>

text \<open>
  Source strings are modelled as \<^typ>\<open>string\<close>, lists of 8-bit characters: the model
  covers ASCII text.  On it \<open>toUpperCase\<close> and \<open>toLowerCase\<close> are those of JavaScript,
  which change the letters a-z and A-Z only.  JavaScript also converts letters outside
  ASCII; the model leaves every character from code 128 on as it is.
\<close>

definition lowerLetters :: string where
  "lowerLetters = ''abcdefghijklmnopqrstuvwxyz''"

definition upperLetters :: string where
  "upperLetters = ''ABCDEFGHIJKLMNOPQRSTUVWXYZ''"

definition toUpperChar :: "char \<Rightarrow> char" where
  "toUpperChar c = (case map_of (zip lowerLetters upperLetters) c of Some u \<Rightarrow> u | None \<Rightarrow> c)"

definition toLowerChar :: "char \<Rightarrow> char" where
  "toLowerChar c = (case map_of (zip upperLetters lowerLetters) c of Some l \<Rightarrow> l | None \<Rightarrow> c)"

definition toUpperCase :: "string \<Rightarrow> string" where
  "toUpperCase s = map toUpperChar s"

definition toLowerCase :: "string \<Rightarrow> string" where
  "toLowerCase s = map toLowerChar s"

text \<open>\<open>s.startsWith(p)\<close>, \<open>s.endsWith(p)\<close> and \<open>s.includes(p)\<close>.\<close>

fun startsWith :: "string \<Rightarrow> string \<Rightarrow> bool" where
  "startsWith s [] = True"
| "startsWith [] (p # ps) = False"
| "startsWith (c # cs) (p # ps) = (c = p \<and> startsWith cs ps)"

definition endsWith :: "string \<Rightarrow> string \<Rightarrow> bool" where
  "endsWith s p = startsWith (rev s) (rev p)"

fun includesStr :: "string \<Rightarrow> string \<Rightarrow> bool" where
  "includesStr [] p = (p = [])"
| "includesStr (c # cs) p = (startsWith (c # cs) p \<or> includesStr cs p)"

text \<open>\<open>s.split(d)\<close> for a one-character separator: the result is never empty,
  \<open>"".split("_")\<close> is \<open>[""]\<close>.\<close>

fun splitChar :: "char \<Rightarrow> string \<Rightarrow> string list" where
  "splitChar d [] = [[]]"
| "splitChar d (c # cs) =
     (if c = d then [] # splitChar d cs
      else (case splitChar d cs of [] \<Rightarrow> [[c]] | w # ws \<Rightarrow> (c # w) # ws))"

text \<open>\<open>xs.join(sep)\<close>.\<close>

fun join :: "string \<Rightarrow> string list \<Rightarrow> string" where
  "join sep [] = []"
| "join sep [x] = x"
| "join sep (x # y # ys) = x @ sep @ join sep (y # ys)"

text \<open>\<open>s.charAt(0)\<close> (the empty string when \<open>s\<close> is empty) and \<open>s.slice(1)\<close>.\<close>

definition charAt0 :: "string \<Rightarrow> string" where
  "charAt0 s = take 1 s"

definition slice1 :: "string \<Rightarrow> string" where
  "slice1 s = drop 1 s"

text \<open>A JavaScript value used as a condition: an optional string is truthy when it is
  present and not empty.\<close>

definition truthy :: "string option \<Rightarrow> bool" where
  "truthy v = (case v of None \<Rightarrow> False | Some s \<Rightarrow> s \<noteq> [])"

text \<open>A JavaScript number that \<open>parseInt\<close> can give: a double with an integer value, an
  infinity, or \<open>NaN\<close>.  \<open>toDouble n\<close> is the double nearest to the integer \<open>n \<ge> 0\<close>,
  a tie going to the neighbour with an even significand of 53 binary digits; from
  \<open>2^1024\<close> on, after rounding, it is \<open>Infinity\<close>.\<close>

datatype jsNumber = Finite int | PosInfinity | NegInfinity | NaN

function bitLength :: "int \<Rightarrow> nat" where
  "bitLength n = (if n \<le> 0 then 0 else Suc (bitLength (n div 2)))"
  by pat_completeness auto
termination
  by (relation "measure nat") auto

definition toDouble :: "int \<Rightarrow> jsNumber" where
  "toDouble n =
     (if n < 2 ^ 53 then Finite n
      else
        (let e = bitLength n - 53; q = n div 2 ^ e; r = n mod 2 ^ e; half = 2 ^ (e - 1);
             q' = (if r > half \<or> (r = half \<and> odd q) then q + 1 else q);
             v = q' * 2 ^ e in
         if v \<ge> 2 ^ 1024 then PosInfinity else Finite v))"

definition negate :: "jsNumber \<Rightarrow> jsNumber" where
  "negate x = (case x of Finite n \<Rightarrow> Finite (- n) | PosInfinity \<Rightarrow> NegInfinity
               | NegInfinity \<Rightarrow> PosInfinity | NaN \<Rightarrow> NaN)"

section \<open>The intermediate representation (\<open>src/types/index.ts\<close>)\<close>

text \<open>Field names carry a prefix, since several interfaces of the source share the
  names \<open>name\<close>, \<open>type\<close>, \<open>columns\<close> and \<open>attributes\<close>.\<close>

record SQLColumn =
  col_name :: string
  col_type :: string
  col_nullable :: bool
  col_defaultValue :: "string option"
  col_isPrimaryKey :: bool
  col_isUnique :: bool
  col_length :: "jsNumber option"
  col_isEnum :: "bool option"

datatype ConstraintType = PRIMARY_KEY | FOREIGN_KEY | UNIQUE | CHECK

record SQLConstraint =
  con_type :: ConstraintType
  con_columns :: "string list"
  con_referencedTable :: "string option"
  con_referencedColumns :: "string list option"

record SQLTable =
  tbl_name :: string
  tbl_columns :: "SQLColumn list"
  tbl_constraints :: "SQLConstraint list"

record SQLEnum =
  enum_name :: string
  enum_values :: "string list"

record PrismaField =
  fld_name :: string
  fld_type :: string
  fld_attributes :: "string list"
  fld_isOptional :: bool
  fld_isArray :: bool

record PrismaModel =
  mdl_name :: string
  mdl_fields :: "PrismaField list"
  mdl_attributes :: "string list"

record PrismaEnum =
  penum_name :: string
  penum_values :: "string list"

record SQLParseResult =
  res_tables :: "SQLTable list"
  res_enums :: "SQLEnum list"

section \<open>The generator (\<open>PrismaGenerator\<close>)\<close>

subsection \<open>Naming\<close>

definition toPascalCase :: "string \<Rightarrow> string" where
  "toPascalCase str =
     concat (map (\<lambda>word. toUpperCase (charAt0 word) @ toLowerCase (slice1 word))
                 (splitChar CHR ''_'' str))"

definition toCamelCase :: "string \<Rightarrow> string" where
  "toCamelCase str =
     (let pascal = toPascalCase str in toLowerCase (charAt0 pascal) @ slice1 pascal)"

text \<open>\<open>/[aeiou]y$/.test(lower)\<close>: the string ends with a vowel followed by \<open>y\<close>.\<close>

definition endsVowelY :: "string \<Rightarrow> bool" where
  "endsVowelY lower = list_ex (\<lambda>v. endsWith lower [v, CHR ''y'']) ''aeiou''"

definition pluralize :: "string \<Rightarrow> string" where
  "pluralize word =
     (let lower = toLowerCase word in
      if endsWith lower ''s'' then word
      else if endsWith lower ''sh'' \<or> endsWith lower ''ch'' \<or> endsWith lower ''x''
              \<or> endsWith lower ''z'' then word @ ''es''
      else if endsWith lower ''y'' \<and> \<not> endsVowelY lower then butlast word @ ''ies''
      else word @ ''s'')"

text \<open>\<open>fkColumn.replace(/_id$/i, "")\<close>: a trailing \<open>_id\<close>, in any letter case, is dropped.\<close>

definition stripIdSuffix :: "string \<Rightarrow> string" where
  "stripIdSuffix s = (if endsWith (toLowerCase s) ''_id'' then take (length s - 3) s else s)"

definition extractRelationFieldName :: "string \<Rightarrow> string \<Rightarrow> string" where
  "extractRelationFieldName fkColumn targetTable =
     (if toLowerCase fkColumn = ''id'' then toCamelCase targetTable
      else let columnBase = stripIdSuffix fkColumn in
        if toLowerCase columnBase = toLowerCase targetTable then toCamelCase targetTable
        else toCamelCase columnBase)"

definition extractForeignKeyContext :: "string \<Rightarrow> string" where
  "extractForeignKeyContext fkColumn =
     (let cleaned = stripIdSuffix fkColumn;
          parts = filter (\<lambda>p. p \<noteq> []) (splitChar CHR ''_'' cleaned) in
      if length parts \<ge> 2
      then parts ! (length parts - 2) @ ''_'' @ parts ! (length parts - 1)
      else (case parts of [] \<Rightarrow> cleaned | p # ps \<Rightarrow> p))"

subsection \<open>Numeric literals: \<open>isNaN(Number(s))\<close>\<close>

text \<open>White space as \<open>String.prototype.trim\<close>, \<open>Number\<close> and the regular expression class
  \<open>\s\<close> see it: tab, line feed, vertical tab, form feed, carriage return, space and the
  no-break space.\<close>

definition isSpaceChar :: "char \<Rightarrow> bool" where
  "isSpaceChar c = (c \<in> set [CHR 0x09, CHR 0x0A, CHR 0x0B, CHR 0x0C, CHR 0x0D, CHR 0x20, CHR 0xA0])"

definition trim :: "string \<Rightarrow> string" where
  "trim s = rev (dropWhile isSpaceChar (rev (dropWhile isSpaceChar s)))"

definition isDigitChar :: "char \<Rightarrow> bool" where
  "isDigitChar c = (c \<in> set ''0123456789'')"

definition isDecimalDigits :: "string \<Rightarrow> bool" where
  "isDecimalDigits s = (s \<noteq> [] \<and> list_all isDigitChar s)"

definition isSignedInteger :: "string \<Rightarrow> bool" where
  "isSignedInteger s =
     (case s of [] \<Rightarrow> False
      | c # cs \<Rightarrow> if c = CHR ''+'' \<or> c = CHR ''-'' then isDecimalDigits cs else isDecimalDigits s)"

definition isExponentPartOpt :: "string \<Rightarrow> bool" where
  "isExponentPartOpt s =
     (case s of [] \<Rightarrow> True | c # cs \<Rightarrow> (c = CHR ''e'' \<or> c = CHR ''E'') \<and> isSignedInteger cs)"

definition isStrUnsignedDecimalLiteral :: "string \<Rightarrow> bool" where
  "isStrUnsignedDecimalLiteral s =
     (s = ''Infinity'' \<or>
      (let ds = takeWhile isDigitChar s; r = dropWhile isDigitChar s in
       case r of
         [] \<Rightarrow> ds \<noteq> []
       | c # cs \<Rightarrow>
           if c = CHR ''.''
           then (let fs = takeWhile isDigitChar cs; r2 = dropWhile isDigitChar cs in
                 (ds \<noteq> [] \<or> fs \<noteq> []) \<and> isExponentPartOpt r2)
           else ds \<noteq> [] \<and> isExponentPartOpt r))"

definition isStrDecimalLiteral :: "string \<Rightarrow> bool" where
  "isStrDecimalLiteral s =
     (case s of [] \<Rightarrow> False
      | c # cs \<Rightarrow> if c = CHR ''+'' \<or> c = CHR ''-'' then isStrUnsignedDecimalLiteral cs
                 else isStrUnsignedDecimalLiteral s)"

definition isNonDecimalIntegerLiteral :: "string \<Rightarrow> bool" where
  "isNonDecimalIntegerLiteral s =
     (case s of
        z # k # ds \<Rightarrow>
          z = CHR ''0'' \<and> ds \<noteq> [] \<and>
          (if k = CHR ''x'' \<or> k = CHR ''X'' then list_all (\<lambda>d. d \<in> set ''0123456789abcdefABCDEF'') ds
           else if k = CHR ''o'' \<or> k = CHR ''O'' then list_all (\<lambda>d. d \<in> set ''01234567'') ds
           else if k = CHR ''b'' \<or> k = CHR ''B'' then list_all (\<lambda>d. d \<in> set ''01'') ds
           else False)
      | _ \<Rightarrow> False)"

text \<open>\<open>isNaN(Number(s))\<close>: \<open>Number\<close> gives a number exactly for the trimmed strings of the
  grammar \<open>StringNumericLiteral\<close> (the empty string is 0), and \<open>NaN\<close> for every other.\<close>

definition jsNumberIsNaN :: "string \<Rightarrow> bool" where
  "jsNumberIsNaN s =
     (let t = trim s in \<not> (t = [] \<or> isStrDecimalLiteral t \<or> isNonDecimalIntegerLiteral t))"

subsection \<open>Types and scalar fields\<close>

definition dq :: string where
  "dq = [CHR 0x22]"

definition convertEnumsToPrismaEnums :: "SQLEnum list \<Rightarrow> PrismaEnum list" where
  "convertEnumsToPrismaEnums enums =
     map (\<lambda>enumDef. \<lparr>penum_name = toPascalCase (enum_name enumDef),
                     penum_values = enum_values enumDef\<rparr>) enums"

definition mapSQLTypeToPrismaType :: "string \<Rightarrow> PrismaEnum list \<Rightarrow> string" where
  "mapSQLTypeToPrismaType sqlType enums =
     (let expectedEnumName = toPascalCase sqlType in
      case find (\<lambda>enumDef. penum_name enumDef = expectedEnumName) enums of
        Some matchingEnum \<Rightarrow> penum_name matchingEnum
      | None \<Rightarrow>
         (let type = toUpperCase sqlType in
          if type \<in> set [''SERIAL'', ''BIGSERIAL'', ''INTEGER'', ''INT'', ''BIGINT''] then ''Int''
          else if type \<in> set [''VARCHAR'', ''TEXT'', ''CHAR''] then ''String''
          else if type \<in> set [''BOOLEAN'', ''BOOL''] then ''Boolean''
          else if type \<in> set [''TIMESTAMP'', ''TIMESTAMPTZ'', ''DATE'', ''TIME''] then ''DateTime''
          else if type \<in> set [''DECIMAL'', ''NUMERIC'', ''FLOAT'', ''DOUBLE'', ''REAL''] then ''Float''
          else if type = ''UUID'' then ''String''
          else if type \<in> set [''JSON'', ''JSONB''] then ''Json''
          else ''String''))"

text \<open>\<open>defaultValue.replace(/^\(|\)$/g, "")\<close>: an opening parenthesis at the start and a
  closing one at the end are removed.\<close>

definition stripOuterParens :: "string \<Rightarrow> string" where
  "stripOuterParens s =
     (let s1 = (if startsWith s ''('' then drop 1 s else s) in
      if endsWith s1 '')'' then butlast s1 else s1)"

definition defaultAttribute :: "string \<Rightarrow> string" where
  "defaultAttribute defaultValue =
     (let upperDefault = toUpperCase defaultValue in
      if upperDefault = ''CURRENT_TIMESTAMP'' \<or> upperDefault = ''NOW()'' \<or> upperDefault = ''(NOW())''
      then ''@default(now())''
      else if includesStr defaultValue ''gen_random_uuid''
      then ''@default(dbgenerated('' @ dq @ ''gen_random_uuid()'' @ dq @ ''))''
      else if defaultValue = ''true'' \<or> defaultValue = ''false''
      then ''@default('' @ defaultValue @ '')''
      else if \<not> jsNumberIsNaN defaultValue
      then ''@default('' @ defaultValue @ '')''
      else if includesStr upperDefault ''NOW()'' \<or> includesStr upperDefault ''CURRENT_TIMESTAMP''
      then ''@default(now())''
      else if includesStr defaultValue ''::json'' \<or> includesStr defaultValue ''::jsonb''
      then ''@default(dbgenerated('' @ dq @ stripOuterParens defaultValue @ dq @ ''))''
      else ''@default('' @ dq @ defaultValue @ dq @ '')'')"

definition columnAttributes :: "SQLColumn \<Rightarrow> string \<Rightarrow> string list" where
  "columnAttributes column name =
     (if col_isPrimaryKey column then
        (if col_type column = ''SERIAL'' \<or> col_type column = ''BIGSERIAL''
         then [''@id @default(autoincrement())'']
         else if col_type column = ''UUID'' \<and>
                 (case col_defaultValue column of None \<Rightarrow> False
                  | Some d \<Rightarrow> includesStr d ''gen_random_uuid'')
         then [''@id @default(dbgenerated('' @ dq @ ''gen_random_uuid()'' @ dq @ ''))'']
         else [''@id''])
      else [])
     @ (if col_isUnique column \<and> \<not> col_isPrimaryKey column then [''@unique''] else [])
     @ (if truthy (col_defaultValue column) \<and> \<not> col_isPrimaryKey column
        then [defaultAttribute (the (col_defaultValue column))] else [])
     @ (if includesStr (col_type column) ''TIMESTAMP''
           \<and> includesStr (toLowerCase (col_name column)) ''updated''
        then [''@updatedAt''] else [])
     @ (if col_name column \<noteq> name then [''@map('' @ dq @ col_name column @ dq @ '')''] else [])
     @ (if col_type column = ''UUID'' then [''@db.Uuid''] else [])
     @ (if col_type column = ''JSONB'' then [''@db.JsonB'']
        else if col_type column = ''JSON'' then [''@db.Json''] else [])"

definition convertColumnToField :: "SQLColumn \<Rightarrow> SQLTable \<Rightarrow> PrismaEnum list \<Rightarrow> PrismaField" where
  "convertColumnToField column table enums =
     (let name = toCamelCase (col_name column);
          type = mapSQLTypeToPrismaType (col_type column)
                   (if col_isEnum column = Some True then enums else []);
          attributes = columnAttributes column name in
      \<lparr>fld_name = name, fld_type = type, fld_attributes = attributes,
       fld_isOptional = (col_nullable column \<and> \<not> col_isPrimaryKey column),
       fld_isArray = False\<rparr>)"

definition createBasicModel :: "SQLTable \<Rightarrow> PrismaEnum list \<Rightarrow> PrismaModel" where
  "createBasicModel table enums =
     (let modelName = toPascalCase (tbl_name table);
          fields = map (\<lambda>column. convertColumnToField column table enums) (tbl_columns table);
          attributes = (if tbl_name table \<noteq> toLowerCase modelName
                        then [''@@map('' @ dq @ tbl_name table @ dq @ '')''] else []) in
      \<lparr>mdl_name = modelName, mdl_fields = fields, mdl_attributes = attributes\<rparr>)"

subsection \<open>Relation fields\<close>

text \<open>What the source can throw in the relation pass: a \<open>TypeError\<close> from
  \<open>model.fields.push\<close> when \<open>models.find\<close> gave \<open>undefined\<close>, and a \<open>TypeError\<close> from
  \<open>fkColumn.replace\<close> when \<open>constraint.columns[0]\<close> is \<open>undefined\<close>.\<close>

datatype error = PushOnUndefinedModel | ReplaceOnUndefinedColumn

text \<open>\<open>xs[0]\<close>: \<open>undefined\<close> (here \<open>None\<close>) on the empty array.\<close>

definition first :: "'a list \<Rightarrow> 'a option" where
  "first xs = (case xs of [] \<Rightarrow> None | x # _ \<Rightarrow> Some x)"

text \<open>The relation counter is a \<open>Map<string, number>\<close>; \<open>relationCounter.get(k) || 0\<close> reads
  it.  The function returns the name together with the updated counter.\<close>

definition generateUniqueRelationName ::
  "string \<Rightarrow> string \<Rightarrow> string option \<Rightarrow> (string \<rightharpoonup> nat) \<Rightarrow> error + (string \<times> (string \<rightharpoonup> nat))" where
  "generateUniqueRelationName fromTable toTable fkColumn relationCounter =
     (let baseName = toPascalCase fromTable @ ''To'' @ toPascalCase toTable;
          count = (case relationCounter baseName of None \<Rightarrow> 0 | Some n \<Rightarrow> n);
          relationCounter' = relationCounter(baseName \<mapsto> count + 1) in
      if count > 0 then
        (case fkColumn of
           None \<Rightarrow> Inl ReplaceOnUndefinedColumn
         | Some col \<Rightarrow>
             Inr (baseName @ ''_'' @ toPascalCase (extractForeignKeyContext col), relationCounter'))
      else Inr (baseName, relationCounter'))"

text \<open>\<open>generateUniqueFieldName\<close> reads \<open>columns[0]\<close>; its only caller, \<open>createRelationField\<close>,
  has returned \<open>null\<close> before when \<open>columns\<close> is empty.  The map of field-name counters
  that the source passes along is never read nor written and is left out.\<close>

definition generateUniqueFieldName :: "string \<Rightarrow> string \<Rightarrow> string list \<Rightarrow> bool \<Rightarrow> string" where
  "generateUniqueFieldName sourceTable targetTable columns isBackRelation =
     (let fkColumn = hd columns in
      if isBackRelation then pluralize (toCamelCase sourceTable)
      else extractRelationFieldName fkColumn targetTable)"

definition isRelationOptional :: "SQLConstraint \<Rightarrow> SQLTable \<Rightarrow> bool" where
  "isRelationOptional constraint table =
     list_ex (\<lambda>colName.
        case find (\<lambda>col. col_name col = colName) (tbl_columns table) of
          None \<Rightarrow> False
        | Some column \<Rightarrow> col_nullable column) (con_columns constraint)"

definition createRelationField :: "SQLConstraint \<Rightarrow> SQLTable \<Rightarrow> string \<Rightarrow> PrismaField option" where
  "createRelationField constraint table relationName =
     (if \<not> truthy (con_referencedTable constraint) \<or> con_columns constraint = []
         \<or> con_referencedColumns constraint = None
      then None
      else
        (let referencedTable = the (con_referencedTable constraint);
             referencedModelName = toPascalCase referencedTable;
             fieldName = generateUniqueFieldName (tbl_name table) referencedTable
                           (con_columns constraint) False;
             foreignKeyFields = map toCamelCase (con_columns constraint);
             referencedFields = map toCamelCase (the (con_referencedColumns constraint)) in
         Some \<lparr>fld_name = fieldName, fld_type = referencedModelName,
               fld_attributes =
                 [''@relation('' @ dq @ relationName @ dq @ '', fields: [''
                    @ join '', '' foreignKeyFields @ ''], references: [''
                    @ join '', '' referencedFields @ ''])''],
               fld_isOptional = isRelationOptional constraint table,
               fld_isArray = False\<rparr>))"

definition createBackRelationField :: "SQLConstraint \<Rightarrow> SQLTable \<Rightarrow> string \<Rightarrow> PrismaField option" where
  "createBackRelationField constraint table relationName =
     (if \<not> truthy (con_referencedTable constraint) \<or> con_columns constraint = [] then None
      else
        (let sourceModelName = toPascalCase (tbl_name table);
             fkCountToSameTarget =
               length (filter (\<lambda>c. con_type c = FOREIGN_KEY \<and>
                                    con_referencedTable c = con_referencedTable constraint)
                              (tbl_constraints table));
             baseBackName = pluralize (toCamelCase (tbl_name table));
             needsContext = (fkCountToSameTarget > 1);
             fkContext = extractForeignKeyContext (hd (con_columns constraint));
             fieldName = (if needsContext then baseBackName @ toPascalCase fkContext
                          else baseBackName) in
         Some \<lparr>fld_name = fieldName, fld_type = sourceModelName,
               fld_attributes = [''@relation('' @ dq @ relationName @ dq @ '')''],
               fld_isOptional = False, fld_isArray = True\<rparr>))"

subsection \<open>The two passes of \<open>convertTablesToModels\<close>\<close>

text \<open>\<open>models.find(m => m.name === n)\<close> gives a reference to the first model of that name;
  the model is the position of that model in the array, \<open>None\<close> for \<open>undefined\<close>.\<close>

fun findModel :: "string \<Rightarrow> PrismaModel list \<Rightarrow> nat option" where
  "findModel n [] = None"
| "findModel n (m # ms) = (if mdl_name m = n then Some 0 else map_option Suc (findModel n ms))"

text \<open>\<open>model.fields.push(field)\<close> on the result of \<open>find\<close>.\<close>

definition pushField :: "nat option \<Rightarrow> PrismaField \<Rightarrow> PrismaModel list \<Rightarrow> error + PrismaModel list" where
  "pushField model field models =
     (case model of
        None \<Rightarrow> Inl PushOnUndefinedModel
      | Some i \<Rightarrow> Inr (models[i := (models ! i)\<lparr>mdl_fields := mdl_fields (models ! i) @ [field]\<rparr>]))"

type_synonym genState = "PrismaModel list \<times> (string \<rightharpoonup> nat)"

text \<open>A loop whose body may throw: the first error ends it.\<close>

fun forEachE :: "('s \<Rightarrow> 'a \<Rightarrow> 'e + 's) \<Rightarrow> 'a list \<Rightarrow> 's \<Rightarrow> 'e + 's" where
  "forEachE body [] st = Inr st"
| "forEachE body (x # xs) st =
     (case body st x of Inl e \<Rightarrow> Inl e | Inr st' \<Rightarrow> forEachE body xs st')"

text \<open>The body of the loop over \<open>table.constraints\<close>.\<close>

definition processConstraint ::
  "SQLTable \<Rightarrow> nat option \<Rightarrow> genState \<Rightarrow> SQLConstraint \<Rightarrow> error + genState" where
  "processConstraint table model st constraint =
     (let models = fst st; relationCounter = snd st in
      if con_type constraint = FOREIGN_KEY \<and> truthy (con_referencedTable constraint) then
        (case generateUniqueRelationName (tbl_name table) (the (con_referencedTable constraint))
                (first (con_columns constraint)) relationCounter of
           Inl e \<Rightarrow> Inl e
         | Inr (relationName, relationCounter') \<Rightarrow>
             (case (case createRelationField constraint table relationName of
                      None \<Rightarrow> Inr models
                    | Some relationField \<Rightarrow> pushField model relationField models) of
                Inl e \<Rightarrow> Inl e
              | Inr models1 \<Rightarrow>
                  (case createBackRelationField constraint table relationName of
                     None \<Rightarrow> Inr (models1, relationCounter')
                   | Some backRelationField \<Rightarrow>
                       (case findModel (toPascalCase (the (con_referencedTable constraint))) models1 of
                          None \<Rightarrow> Inr (models1, relationCounter')
                        | Some j \<Rightarrow>
                            (case pushField (Some j) backRelationField models1 of
                               Inl e \<Rightarrow> Inl e
                             | Inr models2 \<Rightarrow> Inr (models2, relationCounter'))))))
      else Inr st)"

text \<open>The body of the second loop over \<open>tables\<close>.\<close>

definition processTable :: "genState \<Rightarrow> SQLTable \<Rightarrow> error + genState" where
  "processTable st table =
     (let model = findModel (toPascalCase (tbl_name table)) (fst st) in
      forEachE (processConstraint table model) (tbl_constraints table) st)"

definition firstPass :: "SQLTable list \<Rightarrow> PrismaEnum list \<Rightarrow> PrismaModel list" where
  "firstPass tables enums = map (\<lambda>table. createBasicModel table enums) tables"

definition secondPass :: "SQLTable list \<Rightarrow> genState \<Rightarrow> error + genState" where
  "secondPass tables st = forEachE processTable tables st"

definition convertTablesToModels :: "SQLTable list \<Rightarrow> PrismaEnum list \<Rightarrow> error + PrismaModel list" where
  "convertTablesToModels tables enums =
     (case secondPass tables (firstPass tables enums, Map.empty) of
        Inl e \<Rightarrow> Inl e
      | Inr st \<Rightarrow> Inr (fst st))"

subsection \<open>Relation fields in the output\<close>

text \<open>\<open>formatModel\<close> takes as relation fields the fields with an attribute that contains
  \<open>@relation\<close>.\<close>

definition isRelationField :: "PrismaField \<Rightarrow> bool" where
  "isRelationField field = list_ex (\<lambda>attr. includesStr attr ''@relation'') (fld_attributes field)"

section \<open>Regular expressions\<close>

text \<open>
  The parser matches with JavaScript regular expressions.  A pattern is a term of the
  datatype below, and \<open>rmatch r k (s, caps)\<close> is the backtracking matcher of JavaScript:
  it matches \<open>r\<close> against a prefix of \<open>s\<close> and hands the rest of the string, with the
  captures, to the continuation \<open>k\<close>; when \<open>k\<close> fails on it, the next way of matching
  \<open>r\<close> is tried, in the order of JavaScript (the left alternative before the right one,
  more iterations before fewer for \<open>*\<close>, fewer before more for \<open>*?\<close>).
\<close>

datatype regex =
    Eps
  | Sym "char \<Rightarrow> bool"
  | Seq regex regex
  | Alt regex regex
  | Star regex
  | LazyStar regex
  | Group nat regex
  | EndOfInput
  | EndOfLine

type_synonym captures = "(nat \<times> string) list"

type_synonym mstate = "string \<times> captures"

type_synonym matcher = "(mstate \<Rightarrow> mstate option) \<Rightarrow> mstate \<Rightarrow> mstate option"

text \<open>An iteration of \<open>*\<close> that consumes nothing (the rest of the string is unchanged) is
  rejected, as in JavaScript, so a star makes at most as many iterations as the string
  is long: the first argument counts them down.\<close>

fun starK :: "nat \<Rightarrow> matcher \<Rightarrow> matcher" where
  "starK 0 body k st = k st"
| "starK (Suc n) body k st =
     (case body (\<lambda>st'. if fst st' \<noteq> fst st then starK n body k st' else None) st of
        Some r \<Rightarrow> Some r
      | None \<Rightarrow> k st)"

fun lazyStarK :: "nat \<Rightarrow> matcher \<Rightarrow> matcher" where
  "lazyStarK 0 body k st = k st"
| "lazyStarK (Suc n) body k st =
     (case k st of
        Some r \<Rightarrow> Some r
      | None \<Rightarrow> body (\<lambda>st'. if fst st' \<noteq> fst st then lazyStarK n body k st' else None) st)"

definition isLineTerminator :: "char \<Rightarrow> bool" where
  "isLineTerminator c = (c = CHR 0x0A \<or> c = CHR 0x0D)"

primrec rmatch :: "regex \<Rightarrow> matcher" where
  "rmatch Eps k = k"
| "rmatch (Sym P) k =
     (\<lambda>st. case fst st of [] \<Rightarrow> None | x # xs \<Rightarrow> if P x then k (xs, snd st) else None)"
| "rmatch (Seq a b) k = rmatch a (rmatch b k)"
| "rmatch (Alt a b) k =
     (\<lambda>st. case rmatch a k st of Some r \<Rightarrow> Some r | None \<Rightarrow> rmatch b k st)"
| "rmatch (Star a) k = (\<lambda>st. starK (length (fst st)) (rmatch a) k st)"
| "rmatch (LazyStar a) k = (\<lambda>st. lazyStarK (length (fst st)) (rmatch a) k st)"
| "rmatch (Group n a) k =
     (\<lambda>st. rmatch a
        (\<lambda>st'. k (fst st', (n, take (length (fst st) - length (fst st')) (fst st)) # snd st')) st)"
| "rmatch EndOfInput k = (\<lambda>st. if fst st = [] then k st else None)"
| "rmatch EndOfLine k =
     (\<lambda>st. case fst st of [] \<Rightarrow> k st | x # xs \<Rightarrow> if isLineTerminator x then k st else None)"

text \<open>The first match of \<open>r\<close> at the start of \<open>s\<close>: the rest of the string and the captures.\<close>

definition matchHere :: "regex \<Rightarrow> string \<Rightarrow> mstate option" where
  "matchHere r s = rmatch r Some (s, [])"

text \<open>The pattern syntax: \<open>r+\<close>, \<open>r?\<close>, a literal, a literal under the flag \<open>i\<close>, and the
  classes \<open>\s\<close>, \<open>\w\<close>, \<open>\d\<close>, \<open>.\<close>, \<open>[\s\S]\<close> and \<open>[^c]\<close>.\<close>

definition Plus :: "regex \<Rightarrow> regex" where
  "Plus r = Seq r (Star r)"

definition Opt :: "regex \<Rightarrow> regex" where
  "Opt r = Alt r Eps"

fun Seqs :: "regex list \<Rightarrow> regex" where
  "Seqs [] = Eps"
| "Seqs [r] = r"
| "Seqs (r # rs) = Seq r (Seqs rs)"

definition Lit :: "string \<Rightarrow> regex" where
  "Lit s = Seqs (map (\<lambda>x. Sym (\<lambda>c. c = x)) s)"

definition LitI :: "string \<Rightarrow> regex" where
  "LitI s = Seqs (map (\<lambda>x. Sym (\<lambda>c. toUpperChar c = toUpperChar x)) s)"

definition isWordChar :: "char \<Rightarrow> bool" where
  "isWordChar c =
     (c \<in> set ''abcdefghijklmnopqrstuvwxyzABCDEFGHIJKLMNOPQRSTUVWXYZ0123456789_'')"

definition Space :: regex where
  "Space = Sym isSpaceChar"

definition Word :: regex where
  "Word = Sym isWordChar"

definition Digit :: regex where
  "Digit = Sym isDigitChar"

definition Dot :: regex where
  "Dot = Sym (\<lambda>c. \<not> isLineTerminator c)"

definition AnyChar :: regex where
  "AnyChar = Sym (\<lambda>c. True)"

definition Not :: "char \<Rightarrow> regex" where
  "Not x = Sym (\<lambda>c. c \<noteq> x)"

text \<open>\<open>s.match(r)\<close> without the flag \<open>g\<close>, and \<open>r.test(s)\<close>: the leftmost position at which
  \<open>r\<close> matches, with the captures of the first match there.\<close>

fun search :: "regex \<Rightarrow> string \<Rightarrow> captures option" where
  "search r [] = map_option snd (matchHere r [])"
| "search r (x # xs) =
     (case matchHere r (x # xs) of None \<Rightarrow> search r xs | Some st \<Rightarrow> Some (snd st))"

text \<open>A pattern that starts with \<open>^\<close> matches at position 0 only.\<close>

definition testAtStart :: "regex \<Rightarrow> string \<Rightarrow> bool" where
  "testAtStart r s = (matchHere r s \<noteq> None)"

text \<open>\<open>m[i]\<close>: the text of group \<open>i\<close>, \<open>undefined\<close> when the group took no part.\<close>

definition cap :: "captures \<Rightarrow> nat \<Rightarrow> string option" where
  "cap caps i = map_of caps i"

text \<open>\<open>m[i] || m[j]\<close>.\<close>

definition capOr :: "captures \<Rightarrow> nat \<Rightarrow> nat \<Rightarrow> string option" where
  "capOr caps i j = (if truthy (cap caps i) then cap caps i else cap caps j)"

text \<open>\<open>s.replace(r, rep)\<close> with the flag \<open>g\<close>: every match, from left to right, is
  replaced; after an empty match the next character is copied.\<close>

function replaceAll :: "regex \<Rightarrow> string \<Rightarrow> string \<Rightarrow> string" where
  "replaceAll r rep s =
     (case matchHere r s of
        None \<Rightarrow> (case s of [] \<Rightarrow> [] | x # xs \<Rightarrow> x # replaceAll r rep xs)
      | Some st \<Rightarrow>
          if length (fst st) < length s then rep @ replaceAll r rep (fst st)
          else (case s of [] \<Rightarrow> rep | x # xs \<Rightarrow> rep @ x # replaceAll r rep xs))"
  by pat_completeness auto
termination
  by (relation "measure (\<lambda>(r, rep, s). length s)") auto

text \<open>\<open>s.split(r)\<close> for a pattern that matches no empty string.\<close>

function splitRegex :: "regex \<Rightarrow> string \<Rightarrow> string \<Rightarrow> string list" where
  "splitRegex r cur s =
     (case s of
        [] \<Rightarrow> [cur]
      | x # xs \<Rightarrow>
          (case matchHere r s of
             None \<Rightarrow> splitRegex r (cur @ [x]) xs
           | Some st \<Rightarrow>
               if length (fst st) < length s then cur # splitRegex r [] (fst st)
               else splitRegex r (cur @ [x]) xs))"
  by pat_completeness auto
termination
  by (relation "measure (\<lambda>(r, cur, s). length s)") auto

section \<open>The parser (\<open>SQLParser\<close>)\<close>

text \<open>
  The string operations of the parser (\<open>match\<close>, \<open>replace\<close>, \<open>split\<close>, \<open>slice\<close>,
  \<open>indexOf\<close>, \<open>trim\<close>, \<open>parseInt\<close>) are total on strings.  What can throw is a method
  call on a capture group that is \<open>undefined\<close>; the model has that exception, and the
  \<open>try\<close> blocks that catch it.  \<open>null\<close> is \<open>None\<close>.
\<close>

subsection \<open>The patterns\<close>

definition quotedOrWord :: "nat \<Rightarrow> nat \<Rightarrow> regex" where
  \<comment> \<open>\<open>(?:"([^"]+)"|(\w+))\<close>\<close>
  "quotedOrWord i j =
     Alt (Seqs [Lit dq, Group i (Plus (Not (CHR 0x22))), Lit dq]) (Group j (Plus Word))"

definition parenList :: "nat \<Rightarrow> regex" where
  \<comment> \<open>\<open>\(\s*([^)]+)\s*\)\<close>\<close>
  "parenList i =
     Seqs [Lit ''('', Star Space, Group i (Plus (Not (CHR '')''))), Star Space, Lit '')'']"

definition lineCommentRe :: regex where
  \<comment> \<open>\<open>/--.*$/gm\<close>\<close>
  "lineCommentRe = Seqs [Lit ''--'', Star Dot, EndOfLine]"

definition blockCommentRe :: regex where
  \<comment> \<open>\<open>/\/\*[\s\S]*?\*\//g\<close>\<close>
  "blockCommentRe = Seqs [Lit ''/*'', LazyStar AnyChar, Lit ''*/'']"

definition whitespaceRe :: regex where
  \<comment> \<open>\<open>/\s+/g\<close>\<close>
  "whitespaceRe = Plus Space"

definition tableNameRe :: regex where
  \<comment> \<open>\<open>/CREATE\s+TABLE\s+(?:"([^"]+)"|(\w+))\s*\(/i\<close>\<close>
  "tableNameRe =
     Seqs [LitI ''CREATE'', Plus Space, LitI ''TABLE'', Plus Space, quotedOrWord 1 2,
           Star Space, Lit ''('']"

definition contentRe :: regex where
  \<comment> \<open>\<open>/\(([\s\S]*)\)/\<close>\<close>
  "contentRe = Seqs [Lit ''('', Group 1 (Star AnyChar), Lit '')'']"

definition columnIdentifierRe :: regex where
  \<comment> \<open>\<open>/^("([^"]+)"|\w+)\s+/\<close>, without the \<open>^\<close>\<close>
  "columnIdentifierRe =
     Seqs [Group 1 (Alt (Seqs [Lit dq, Group 2 (Plus (Not (CHR 0x22))), Lit dq]) (Plus Word)),
           Plus Space]"

definition lengthRe :: regex where
  \<comment> \<open>\<open>/(\w+)\((\d+)\)/\<close>\<close>
  "lengthRe = Seqs [Group 1 (Plus Word), Lit ''('', Group 2 (Plus Digit), Lit '')'']"

definition defaultRe :: regex where
  \<comment> \<open>\<open>/DEFAULT\s+((?:\([^)]*(?:\([^)]*\)[^)]*)*\)(?:::\w+)?)|(?:[^,\s]+))/i\<close>\<close>
  "defaultRe =
     Seqs [LitI ''DEFAULT'', Plus Space,
           Group 1 (Alt (Seqs [Lit ''('', Star (Not (CHR '')'')),
                               Star (Seqs [Lit ''('', Star (Not (CHR '')'')), Lit '')'',
                                           Star (Not (CHR '')''))]),
                               Lit '')'', Opt (Seqs [Lit ''::'', Plus Word])])
                        (Plus (Sym (\<lambda>c. c \<noteq> CHR '','' \<and> \<not> isSpaceChar c))))]"

definition referencesRe :: regex where
  \<comment> \<open>\<open>/REFERENCES\s+(?:"([^"]+)"|(\w+))\s*\(\s*([^)]+)\s*\)/i\<close>\<close>
  "referencesRe =
     Seqs [LitI ''REFERENCES'', Plus Space, quotedOrWord 1 2, Star Space, parenList 3]"

definition primaryKeyRe :: regex where
  \<comment> \<open>\<open>/PRIMARY\s+KEY\s*\(\s*([^)]+)\s*\)/i\<close>\<close>
  "primaryKeyRe = Seqs [LitI ''PRIMARY'', Plus Space, LitI ''KEY'', Star Space, parenList 1]"

definition foreignKeyRe :: regex where
  \<comment> \<open>\<open>/FOREIGN\s+KEY\s*\(\s*([^)]+)\s*\)\s*REFERENCES\s+(\w+)\s*\(\s*([^)]+)\s*\)/i\<close>\<close>
  "foreignKeyRe =
     Seqs [LitI ''FOREIGN'', Plus Space, LitI ''KEY'', Star Space, parenList 1, Star Space,
           LitI ''REFERENCES'', Plus Space, Group 2 (Plus Word), Star Space, parenList 3]"

definition enumRe :: regex where
  \<comment> \<open>\<open>/CREATE\s+TYPE\s+(?:"([^"]+)"|(\w+))\s+AS\s+ENUM\s*\(\s*([^)]+)\s*\)/i\<close>\<close>
  "enumRe =
     Seqs [LitI ''CREATE'', Plus Space, LitI ''TYPE'', Plus Space, quotedOrWord 1 2, Plus Space,
           LitI ''AS'', Plus Space, LitI ''ENUM'', Star Space, parenList 3]"

definition parenIdentifier :: "nat \<Rightarrow> nat \<Rightarrow> regex" where
  \<comment> \<open>\<open>\(\s*(?:"([^"]+)"|(\w+))\s*\)\<close>\<close>
  "parenIdentifier i j = Seqs [Lit ''('', Star Space, quotedOrWord i j, Star Space, Lit '')'']"

definition alterRe :: regex where
  \<comment> \<open>\<open>/ALTER\s+TABLE\s+(?:"([^"]+)"|(\w+))\s+ADD\s+(?:CONSTRAINT\s+(?:"[^"]+"|[\w]+)\s+)?
       FOREIGN\s+KEY\s*\(\s*(?:"([^"]+)"|(\w+))\s*\)\s+REFERENCES\s+(?:"([^"]+)"|(\w+))\s*
       \(\s*(?:"([^"]+)"|(\w+))\s*\)/i\<close>\<close>
  "alterRe =
     Seqs [LitI ''ALTER'', Plus Space, LitI ''TABLE'', Plus Space, quotedOrWord 1 2, Plus Space,
           LitI ''ADD'', Plus Space,
           Opt (Seqs [LitI ''CONSTRAINT'', Plus Space,
                      Alt (Seqs [Lit dq, Plus (Not (CHR 0x22)), Lit dq]) (Plus Word), Plus Space]),
           LitI ''FOREIGN'', Plus Space, LitI ''KEY'', Star Space, parenIdentifier 3 4, Plus Space,
           LitI ''REFERENCES'', Plus Space, quotedOrWord 5 6, Star Space, parenIdentifier 7 8]"

subsection \<open>Helpers\<close>

text \<open>\<open>s.slice(1, -1)\<close>.\<close>

definition sliceInner :: "string \<Rightarrow> string" where
  "sliceInner s = butlast (drop 1 s)"

text \<open>\<open>s.indexOf(c, from)\<close> for a one-character \<open>c\<close>; \<open>None\<close> is \<open>-1\<close>.\<close>

fun indexOfFrom :: "char \<Rightarrow> nat \<Rightarrow> string \<Rightarrow> nat option" where
  "indexOfFrom c from [] = None"
| "indexOfFrom c 0 (x # xs) = (if x = c then Some 0 else map_option Suc (indexOfFrom c 0 xs))"
| "indexOfFrom c (Suc n) (x # xs) = map_option Suc (indexOfFrom c n xs)"

text \<open>\<open>parseInt(s)\<close> with no radix: leading white space is skipped, then a sign, then
  \<open>0x\<close> for radix 16, then the longest run of digits is read and rounded to a double; no
  digit gives \<open>NaN\<close>, and so does \<open>undefined\<close>.  (Zero with a minus sign is zero here.)\<close>

definition digitValue :: "char \<Rightarrow> int" where
  "digitValue c =
     (case map_of (zip ''0123456789abcdef'' [0, 1, 2, 3, 4, 5, 6, 7, 8, 9, 10, 11, 12, 13, 14, 15])
             (toLowerChar c) of
        None \<Rightarrow> 0 | Some d \<Rightarrow> d)"

definition digitsValue :: "int \<Rightarrow> string \<Rightarrow> int" where
  "digitsValue radix s = foldl (\<lambda>acc c. radix * acc + digitValue c) 0 s"

definition isHexDigitChar :: "char \<Rightarrow> bool" where
  "isHexDigitChar c = (c \<in> set ''0123456789abcdefABCDEF'')"

definition parseIntString :: "string \<Rightarrow> jsNumber" where
  "parseIntString s =
     (let s1 = dropWhile isSpaceChar s;
          negative = startsWith s1 ''-'';
          s2 = (if startsWith s1 ''+'' \<or> startsWith s1 ''-'' then drop 1 s1 else s1);
          hex = (startsWith s2 ''0x'' \<or> startsWith s2 ''0X'');
          s3 = (if hex then drop 2 s2 else s2);
          z = takeWhile (if hex then isHexDigitChar else isDigitChar) s3;
          number = toDouble (digitsValue (if hex then 16 else 10) z) in
      if z = [] then NaN else if negative then negate number else number)"

definition parseInt :: "string option \<Rightarrow> jsNumber" where
  "parseInt v = (case v of None \<Rightarrow> NaN | Some s \<Rightarrow> parseIntString s)"

definition parseIdentifier :: "string \<Rightarrow> string" where
  "parseIdentifier identifier =
     (if startsWith identifier dq \<and> endsWith identifier dq then sliceInner identifier
      else identifier)"

subsection \<open>Exceptions\<close>

text \<open>
  A capture group that took no part in a match is \<open>undefined\<close>, and a method call on
  \<open>undefined\<close> throws a \<open>TypeError\<close>.  Every function of the parser returns either an
  exception (\<open>Inl\<close>) or its result; a call passes the exception of the callee on, and
  \<open>try { body } catch { return null }\<close> turns the exception of \<open>body\<close> into \<open>null\<close>
  (\<open>None\<close>).  Exceptions that come from the exhaustion of a resource of the engine (the
  stack, the memory) are outside the model.
\<close>

datatype parseError = TypeErrorOnUndefined

text \<open>\<open>v.method(\<dots>)\<close> on a value that may be \<open>undefined\<close>.\<close>

definition onDefined :: "'a option \<Rightarrow> ('a \<Rightarrow> 'b) \<Rightarrow> parseError + 'b" where
  "onDefined v method = (case v of None \<Rightarrow> Inl TypeErrorOnUndefined | Some x \<Rightarrow> Inr (method x))"

text \<open>\<open>try { return body } catch (error) { console.error(\<dots>); return null }\<close>.\<close>

definition catchNull :: "parseError + 'a option \<Rightarrow> parseError + 'a option" where
  "catchNull body = (case body of Inl error \<Rightarrow> Inr None | Inr result \<Rightarrow> Inr result)"

subsection \<open>Statements\<close>

fun splitByCommasLoop :: "string \<Rightarrow> string \<Rightarrow> int \<Rightarrow> string list \<Rightarrow> string list" where
  "splitByCommasLoop [] current parenthesesDepth parts =
     (if trim current \<noteq> [] then parts @ [trim current] else parts)"
| "splitByCommasLoop (char # content) current parenthesesDepth parts =
     (if char = CHR ''(''
      then splitByCommasLoop content (current @ [char]) (parenthesesDepth + 1) parts
      else if char = CHR '')''
      then splitByCommasLoop content (current @ [char]) (parenthesesDepth - 1) parts
      else if char = CHR '','' \<and> parenthesesDepth = 0
      then splitByCommasLoop content [] parenthesesDepth (parts @ [trim current])
      else splitByCommasLoop content (current @ [char]) parenthesesDepth parts)"

definition splitByCommas :: "string \<Rightarrow> string list" where
  "splitByCommas content = splitByCommasLoop content [] 0 []"

definition isConstraintDefinition :: "string \<Rightarrow> bool" where
  "isConstraintDefinition part =
     (let upper = toUpperCase part;
          startsWithColumnIdentifier = testAtStart columnIdentifierRe part in
      (includesStr upper ''PRIMARY KEY'' \<or> includesStr upper ''FOREIGN KEY''
         \<or> includesStr upper ''UNIQUE'' \<or> includesStr upper ''CHECK'')
      \<and> \<not> startsWithColumnIdentifier)"

text \<open>\<open>parseColumn\<close> pushes an inline \<open>REFERENCES\<close> constraint onto the constraints of the
  table being built: the model returns the column together with the new constraints;
  \<open>inlineReferences\<close> is that push.  It throws, before the push, when the group of the
  referenced columns is \<open>undefined\<close>.\<close>

definition inlineReferences ::
  "string \<Rightarrow> string \<Rightarrow> SQLConstraint list \<Rightarrow> parseError + SQLConstraint list" where
  "inlineReferences columnDef name constraints =
     (case search referencesRe columnDef of
        None \<Rightarrow> Inr constraints
      | Some referencesMatch \<Rightarrow>
         (case onDefined (cap referencesMatch 3) (splitChar CHR '','') of
            Inl error \<Rightarrow> Inl error
          | Inr refs \<Rightarrow>
              Inr (constraints @
                   [\<lparr>con_type = FOREIGN_KEY, con_columns = [name],
                     con_referencedTable = capOr referencesMatch 1 2,
                     con_referencedColumns =
                       Some (map (\<lambda>col. parseIdentifier (trim col)) refs)\<rparr>])))"

text \<open>The body of the \<open>try\<close> block of \<open>parseColumn\<close>, after the name has been read.  The
  result is the exception or the column, together with the constraints as they are when
  the block is left.  The type is \<open>undefined\<close> when the group of \<open>lengthMatch\<close> is: then
  \<open>type.toLowerCase()\<close> throws in the test for an enum if there is an enum to test,
  \<open>type.toUpperCase()\<close> throws in the test for an identity column, and otherwise
  \<open>type.toUpperCase()\<close> throws in the \<open>return\<close>, after the push.\<close>

definition parseColumnRest ::
  "string \<Rightarrow> string \<Rightarrow> string \<Rightarrow> SQLConstraint list \<Rightarrow> SQLEnum list
     \<Rightarrow> (parseError + SQLColumn option) \<times> SQLConstraint list" where
  "parseColumnRest columnDef name remainingDef constraints enums =
     (case splitRegex whitespaceRe [] remainingDef of
        [] \<Rightarrow> (Inr None, constraints)
      | type0 # _ \<Rightarrow>
         (let lengthMatch = search lengthRe type0;
              type1 = (case lengthMatch of None \<Rightarrow> Some type0 | Some m \<Rightarrow> cap m 1);
              length = (case lengthMatch of None \<Rightarrow> None | Some m \<Rightarrow> Some (parseInt (cap m 2)));
              upperDef = toUpperCase columnDef;
              isPrimaryKey = includesStr upperDef ''PRIMARY KEY'';
              isUnique = (includesStr upperDef ''UNIQUE'' \<or> isPrimaryKey);
              nullable = (\<not> includesStr upperDef ''NOT NULL'' \<and> \<not> isPrimaryKey);
              isIdentity = (includesStr upperDef ''GENERATED BY DEFAULT AS IDENTITY''
                            \<or> includesStr upperDef ''GENERATED ALWAYS AS IDENTITY'');
              defaultValue = (case search defaultRe columnDef of None \<Rightarrow> None
                              | Some m \<Rightarrow> cap m 1) in
          case type1 of
            None \<Rightarrow>
              (if enums \<noteq> [] \<or> isIdentity then (Inl TypeErrorOnUndefined, constraints)
               else (case inlineReferences columnDef name constraints of
                       Inl error \<Rightarrow> (Inl error, constraints)
                     | Inr constraints' \<Rightarrow> (Inl TypeErrorOnUndefined, constraints')))
          | Some type2 \<Rightarrow>
              (let isEnum = list_ex (\<lambda>enumDef. toLowerCase (enum_name enumDef) = toLowerCase type2)
                              enums;
                   type = (if isIdentity \<and> toUpperCase type2 = ''INTEGER'' then ''SERIAL''
                           else if isIdentity \<and> toUpperCase type2 = ''BIGINT'' then ''BIGSERIAL''
                           else type2) in
               case inlineReferences columnDef name constraints of
                 Inl error \<Rightarrow> (Inl error, constraints)
               | Inr constraints' \<Rightarrow>
                   (Inr (Some \<lparr>col_name = name,
                               col_type = (if isEnum then type else toUpperCase type),
                               col_nullable = nullable, col_defaultValue = defaultValue,
                               col_isPrimaryKey = isPrimaryKey, col_isUnique = isUnique,
                               col_length = length, col_isEnum = Some isEnum\<rparr>),
                    constraints'))))"

definition parseColumnBody ::
  "string \<Rightarrow> SQLConstraint list \<Rightarrow> SQLEnum list
     \<Rightarrow> (parseError + SQLColumn option) \<times> SQLConstraint list" where
  "parseColumnBody columnDef constraints enums =
     (let trimmed = trim columnDef in
      if startsWith trimmed dq then
        (case indexOfFrom (CHR 0x22) 1 trimmed of
           None \<Rightarrow> (Inr None, constraints)
         | Some endQuote \<Rightarrow>
             parseColumnRest columnDef (take (endQuote - 1) (drop 1 trimmed))
               (trim (drop (endQuote + 1) trimmed)) constraints enums)
      else
        (case indexOfFrom CHR '' '' 0 trimmed of
           None \<Rightarrow> (Inr None, constraints)
         | Some spaceIndex \<Rightarrow>
             parseColumnRest columnDef (take spaceIndex trimmed)
               (trim (drop (spaceIndex + 1) trimmed)) constraints enums))"

text \<open>\<open>parseColumn\<close>: the \<open>catch\<close> returns \<open>null\<close>; a constraint pushed before the exception
  stays.\<close>

definition parseColumn ::
  "string \<Rightarrow> SQLConstraint list \<Rightarrow> SQLEnum list
     \<Rightarrow> parseError + (SQLColumn option \<times> SQLConstraint list)" where
  "parseColumn columnDef constraints enums =
     (case parseColumnBody columnDef constraints enums of
        (Inl error, constraints') \<Rightarrow> Inr (None, constraints')
      | (Inr column, constraints') \<Rightarrow> Inr (column, constraints'))"

definition parseForeignKeyClause :: "string \<Rightarrow> string \<Rightarrow> parseError + SQLConstraint option" where
  "parseForeignKeyClause upper constraintDef =
     (if includesStr upper ''FOREIGN KEY'' then
        (case search foreignKeyRe constraintDef of
           None \<Rightarrow> Inr None
         | Some fkMatch \<Rightarrow>
             (case onDefined (cap fkMatch 1) (splitChar CHR '','') of
                Inl error \<Rightarrow> Inl error
              | Inr cols \<Rightarrow>
                  (case onDefined (cap fkMatch 3) (splitChar CHR '','') of
                     Inl error \<Rightarrow> Inl error
                   | Inr refs \<Rightarrow>
                       Inr (Some \<lparr>con_type = FOREIGN_KEY, con_columns = map trim cols,
                                  con_referencedTable = cap fkMatch 2,
                                  con_referencedColumns = Some (map trim refs)\<rparr>))))
      else Inr None)"

definition parseConstraintBody :: "string \<Rightarrow> parseError + SQLConstraint option" where
  "parseConstraintBody constraintDef =
     (let upper = toUpperCase constraintDef in
      if includesStr upper ''PRIMARY KEY'' then
        (case search primaryKeyRe constraintDef of
           None \<Rightarrow> parseForeignKeyClause upper constraintDef
         | Some columnsMatch \<Rightarrow>
             (case onDefined (cap columnsMatch 1) (splitChar CHR '','') of
                Inl error \<Rightarrow> Inl error
              | Inr cols \<Rightarrow>
                  Inr (Some \<lparr>con_type = PRIMARY_KEY, con_columns = map trim cols,
                             con_referencedTable = None, con_referencedColumns = None\<rparr>)))
      else parseForeignKeyClause upper constraintDef)"

definition parseConstraint :: "string \<Rightarrow> parseError + SQLConstraint option" where
  "parseConstraint constraintDef = catchNull (parseConstraintBody constraintDef)"

text \<open>The body of the loop over the parts of a table definition; the state is the columns
  and the constraints collected so far.\<close>

definition parsePart ::
  "SQLEnum list \<Rightarrow> SQLColumn list \<times> SQLConstraint list \<Rightarrow> string
     \<Rightarrow> parseError + (SQLColumn list \<times> SQLConstraint list)" where
  "parsePart enums st part =
     (let columns = fst st; constraints = snd st; trimmed = trim part in
      if isConstraintDefinition trimmed then
        (case parseConstraint trimmed of
           Inl error \<Rightarrow> Inl error
         | Inr None \<Rightarrow> Inr (columns, constraints)
         | Inr (Some constraint) \<Rightarrow> Inr (columns, constraints @ [constraint]))
      else
        (case parseColumn trimmed constraints enums of
           Inl error \<Rightarrow> Inl error
         | Inr (None, constraints') \<Rightarrow> Inr (columns, constraints')
         | Inr (Some column, constraints') \<Rightarrow> Inr (columns @ [column], constraints')))"

text \<open>The body of the \<open>try\<close> block of \<open>parseCreateTable\<close>.  \<open>splitByCommas\<close> reads
  \<open>content.length\<close>, which throws when the group of the content is \<open>undefined\<close>.  One of
  the two groups of the table name takes part in every match of the pattern.\<close>

definition parseCreateTableBody :: "string \<Rightarrow> SQLEnum list \<Rightarrow> parseError + SQLTable option" where
  "parseCreateTableBody statement enums =
     (case search tableNameRe statement of
        None \<Rightarrow> Inr None
      | Some tableNameMatch \<Rightarrow>
         (case capOr tableNameMatch 1 2 of
            None \<Rightarrow> Inr None
          | Some tableName \<Rightarrow>
             (case search contentRe statement of
                None \<Rightarrow> Inr None
              | Some contentMatch \<Rightarrow>
                 (case onDefined (cap contentMatch 1) splitByCommas of
                    Inl error \<Rightarrow> Inl error
                  | Inr parts \<Rightarrow>
                     (case forEachE (parsePart enums) parts ([], []) of
                        Inl error \<Rightarrow> Inl error
                      | Inr st \<Rightarrow>
                          Inr (Some \<lparr>tbl_name = tableName, tbl_columns = fst st,
                                     tbl_constraints = snd st\<rparr>))))))"

definition parseCreateTable :: "string \<Rightarrow> SQLEnum list \<Rightarrow> parseError + SQLTable option" where
  "parseCreateTable statement enums = catchNull (parseCreateTableBody statement enums)"

definition unquoteValue :: "string \<Rightarrow> string" where
  "unquoteValue v =
     (let trimmed = trim v in
      if (startsWith trimmed [CHR 0x27] \<and> endsWith trimmed [CHR 0x27])
         \<or> (startsWith trimmed dq \<and> endsWith trimmed dq)
      then sliceInner trimmed else trimmed)"

text \<open>The body of the \<open>try\<close> block of \<open>parseCreateEnum\<close>.  One of the two groups of the type
  name takes part in every match of the pattern.\<close>

definition parseCreateEnumBody :: "string \<Rightarrow> parseError + SQLEnum option" where
  "parseCreateEnumBody statement =
     (case search enumRe statement of
        None \<Rightarrow> Inr None
      | Some enumMatch \<Rightarrow>
         (case capOr enumMatch 1 2 of
            None \<Rightarrow> Inr None
          | Some enumName \<Rightarrow>
             (case onDefined (cap enumMatch 3) (splitChar CHR '','') of
                Inl error \<Rightarrow> Inl error
              | Inr values \<Rightarrow>
                  Inr (Some \<lparr>enum_name = enumName,
                             enum_values = filter (\<lambda>v. length v > 0) (map unquoteValue values)\<rparr>))))"

definition parseCreateEnum :: "string \<Rightarrow> parseError + SQLEnum option" where
  "parseCreateEnum statement = catchNull (parseCreateEnumBody statement)"

text \<open>\<open>tables.find(t => t.name === n)\<close> followed by a push onto the constraints of the table
  found: the first table of that name gets the constraint.\<close>

fun addConstraint :: "string \<Rightarrow> SQLConstraint \<Rightarrow> SQLTable list \<Rightarrow> SQLTable list" where
  "addConstraint n c [] = []"
| "addConstraint n c (t # ts) =
     (if tbl_name t = n then t\<lparr>tbl_constraints := tbl_constraints t @ [c]\<rparr> # ts
      else t # addConstraint n c ts)"

text \<open>\<open>parseAlterTableForeignKey\<close> calls no method on a group; its \<open>try\<close> block has nothing
  that throws.  In every match of the pattern one group of each of the four names takes
  part.\<close>

definition parseAlterTableForeignKey :: "string \<Rightarrow> SQLTable list \<Rightarrow> parseError + SQLTable list" where
  "parseAlterTableForeignKey statement tables =
     (case search alterRe statement of
        None \<Rightarrow> Inr tables
      | Some fkMatch \<Rightarrow>
         (case (capOr fkMatch 1 2, capOr fkMatch 3 4, capOr fkMatch 7 8) of
            (Some alterTableName, Some foreignKeyColumn, Some referencedColumn) \<Rightarrow>
              Inr (addConstraint alterTableName
                     \<lparr>con_type = FOREIGN_KEY, con_columns = [foreignKeyColumn],
                      con_referencedTable = capOr fkMatch 5 6,
                      con_referencedColumns = Some [referencedColumn]\<rparr> tables)
          | _ \<Rightarrow> Inr tables))"

subsection \<open>\<open>parseSQL\<close>\<close>

definition cleanSQL :: "string \<Rightarrow> string" where
  "cleanSQL sql =
     trim (replaceAll whitespaceRe '' '' (replaceAll blockCommentRe [] (replaceAll lineCommentRe [] sql)))"

definition splitStatements :: "string \<Rightarrow> string list" where
  "splitStatements cleanedSQL = filter (\<lambda>stmt. trim stmt \<noteq> []) (splitChar CHR '';'' cleanedSQL)"

definition isEnumStatement :: "string \<Rightarrow> bool" where
  "isEnumStatement statement =
     (let upperTrimmed = toUpperCase (trim statement) in
      startsWith upperTrimmed ''CREATE TYPE'' \<and> includesStr upperTrimmed ''AS ENUM'')"

definition isTableStatement :: "string \<Rightarrow> bool" where
  "isTableStatement statement = startsWith (toUpperCase (trim statement)) ''CREATE TABLE''"

definition isAlterStatement :: "string \<Rightarrow> bool" where
  "isAlterStatement statement =
     (let upperTrimmed = toUpperCase (trim statement) in
      startsWith upperTrimmed ''ALTER TABLE''
      \<and> (includesStr upperTrimmed ''ADD FOREIGN KEY'' \<or> includesStr upperTrimmed ''ADD CONSTRAINT''))"

text \<open>The three loops over the statements.  They are not inside a \<open>try\<close> block: an exception
  of a call ends \<open>parseSQL\<close>.\<close>

fun enumPass :: "string list \<Rightarrow> SQLEnum list \<Rightarrow> parseError + SQLEnum list" where
  "enumPass [] enums = Inr enums"
| "enumPass (statement # statements) enums =
     (if isEnumStatement statement then
        (case parseCreateEnum (trim statement) of
           Inl error \<Rightarrow> Inl error
         | Inr None \<Rightarrow> enumPass statements enums
         | Inr (Some enumDef) \<Rightarrow> enumPass statements (enums @ [enumDef]))
      else enumPass statements enums)"

fun tablePass :: "SQLEnum list \<Rightarrow> string list \<Rightarrow> SQLTable list \<Rightarrow> parseError + SQLTable list" where
  "tablePass enums [] tables = Inr tables"
| "tablePass enums (statement # statements) tables =
     (if isTableStatement statement then
        (case parseCreateTable (trim statement) enums of
           Inl error \<Rightarrow> Inl error
         | Inr None \<Rightarrow> tablePass enums statements tables
         | Inr (Some table) \<Rightarrow> tablePass enums statements (tables @ [table]))
      else tablePass enums statements tables)"

fun alterPass :: "string list \<Rightarrow> SQLTable list \<Rightarrow> parseError + SQLTable list" where
  "alterPass [] tables = Inr tables"
| "alterPass (statement # statements) tables =
     (if isAlterStatement statement then
        (case parseAlterTableForeignKey (trim statement) tables of
           Inl error \<Rightarrow> Inl error
         | Inr tables' \<Rightarrow> alterPass statements tables')
      else alterPass statements tables)"

definition parseStatements :: "string list \<Rightarrow> parseError + SQLParseResult" where
  "parseStatements statements =
     (case enumPass statements [] of
        Inl error \<Rightarrow> Inl error
      | Inr enums \<Rightarrow>
         (case tablePass enums statements [] of
            Inl error \<Rightarrow> Inl error
          | Inr tables \<Rightarrow>
             (case alterPass statements tables of
                Inl error \<Rightarrow> Inl error
              | Inr tables' \<Rightarrow> Inr \<lparr>res_tables = tables', res_enums = enums\<rparr>)))"

definition parseSQL :: "string \<Rightarrow> parseError + SQLParseResult" where
  "parseSQL sql = parseStatements (splitStatements (cleanSQL sql))"

section \<open>The name of a model in the editor (\<open>sqlToPrismaName\<close>)\<close>

text \<open>
  The page of the converter has its own function from the name of a table to the name
  of its model, with which it finds the model of a table in the generated text.
  \<open>cleanName.replace(/["`']/g, "")\<close> drops the three quote characters; the two tests for an
  enum are patterns under the flag \<open>i\<close>, anchored at the end and at the start.
\<close>

definition isLikelyEnum :: "string \<Rightarrow> bool" where
  "isLikelyEnum cleanName =
     (let lower = toLowerCase cleanName in
      list_ex (endsWith lower)
        [''_status'', ''_type'', ''_state'', ''_category'', ''_level'', ''_role'', ''_kind'']
      \<or> list_ex (startsWith lower)
           [''status'', ''type'', ''state'', ''category'', ''level'', ''role'', ''kind''])"

definition sqlToPrismaName :: "string \<Rightarrow> string" where
  "sqlToPrismaName sqlName =
     (let cleanName = filter (\<lambda>c. c \<notin> set [CHR 0x22, CHR 0x60, CHR 0x27]) sqlName;
          result = concat (map (\<lambda>word. toUpperCase (charAt0 word) @ toLowerCase (slice1 word))
                               (splitChar CHR ''_'' cleanName)) in
      if \<not> isLikelyEnum cleanName then
        (if endsWith result ''ies'' then take (length result - 3) result @ ''y''
         else if endsWith result ''es'' \<and> \<not> endsWith result ''ses''
         then take (length result - 2) result
         else if endsWith result ''s'' \<and> \<not> endsWith result ''ss''
         then take (length result - 1) result
         else result)
      else result)"

section \<open>The pipeline\<close>

text \<open>The models that generation builds from the parse of a schema text; an exception of
  the parser or of the generator ends the run.\<close>

definition modelsOf :: "string \<Rightarrow> (parseError + error) + PrismaModel list" where
  "modelsOf sql =
     (case parseSQL sql of
        Inl e \<Rightarrow> Inl (Inl e)
      | Inr parseResult \<Rightarrow>
         (case convertTablesToModels (res_tables parseResult)
                 (convertEnumsToPrismaEnums (res_enums parseResult)) of
            Inl e \<Rightarrow> Inl (Inr e)
          | Inr models \<Rightarrow> Inr models))"

text \<open>Name, type, optionality and array flag of a field, and for each model its name
  with its relation fields in that form.\<close>

definition fieldSummary :: "PrismaField \<Rightarrow> string \<times> string \<times> bool \<times> bool" where
  "fieldSummary f = (fld_name f, fld_type f, fld_isOptional f, fld_isArray f)"

definition relationSummary ::
  "'e + PrismaModel list \<Rightarrow> 'e + (string \<times> (string \<times> string \<times> bool \<times> bool) list) list" where
  "relationSummary r =
     map_sum id (map (\<lambda>m. (mdl_name m, map fieldSummary (filter isRelationField (mdl_fields m))))) r"

text \<open>A statement that no pattern of its kind matches: the text of the statement alone
  decides it.  (A statement of none of the three kinds is one.)\<close>

definition unmatched :: "string \<Rightarrow> bool" where
  "unmatched statement =
     ((\<not> isEnumStatement statement \<or> search enumRe (trim statement) = None)
      \<and> (\<not> isTableStatement statement \<or> search tableNameRe (trim statement) = None
            \<or> search contentRe (trim statement) = None)
      \<and> (\<not> isAlterStatement statement \<or> search alterRe (trim statement) = None))"

text \<open>A constraint with at least one column, and tables all of whose constraints have one.\<close>

definition hasColumn :: "SQLConstraint \<Rightarrow> bool" where
  "hasColumn c = (con_columns c \<noteq> [])"

definition tablesHaveColumns :: "SQLTable list \<Rightarrow> bool" where
  "tablesHaveColumns tables = list_all (\<lambda>t. list_all hasColumn (tbl_constraints t)) tables"

text \<open>The models \<open>ms'\<close> are the models \<open>ms\<close> with fields appended.\<close>

definition extends :: "PrismaModel list \<Rightarrow> PrismaModel list \<Rightarrow> bool" where
  "extends ms ms' =
     (length ms' = length ms \<and>
      (\<forall>j < length ms. \<exists>extra. mdl_fields (ms' ! j) = mdl_fields (ms ! j) @ extra))"

text \<open>The table \<open>T\<close> is among \<open>tables\<close>, with its name and its columns, and with its
  constraints followed by any further ones.\<close>

definition tableIn :: "SQLTable \<Rightarrow> SQLTable list \<Rightarrow> bool" where
  "tableIn T tables =
     list_ex (\<lambda>T'. tbl_name T' = tbl_name T \<and> tbl_columns T' = tbl_columns T
                  \<and> take (length (tbl_constraints T)) (tbl_constraints T') = tbl_constraints T)
             tables"

section \<open>Character classes on the bits of a character\<close>

text \<open>A character is \<open>Char b0 \<dots> b7\<close>, \<open>b0\<close> the lowest bit.  The letters a-z are the codes
  0x61-0x7A and A-Z the codes 0x41-0x5A: the five low bits are a number from 1 to 26.\<close>

definition lowFive :: "bool \<Rightarrow> bool \<Rightarrow> bool \<Rightarrow> bool \<Rightarrow> bool \<Rightarrow> bool" where
  "lowFive b0 b1 b2 b3 b4 =
     ((b0 \<or> b1 \<or> b2 \<or> b3 \<or> b4) \<and> \<not> (b4 \<and> b3 \<and> (b2 \<or> (b1 \<and> b0))))"

section \<open>Sample inputs\<close>

definition sampleColumn :: "string \<Rightarrow> string \<Rightarrow> bool \<Rightarrow> bool \<Rightarrow> SQLColumn" where
  "sampleColumn n t nullable pk =
     \<lparr>col_name = n, col_type = t, col_nullable = nullable, col_defaultValue = None,
      col_isPrimaryKey = pk, col_isUnique = pk, col_length = None, col_isEnum = Some False\<rparr>"

definition sampleForeignKey :: "string list \<Rightarrow> string \<Rightarrow> SQLConstraint" where
  "sampleForeignKey cols target =
     \<lparr>con_type = FOREIGN_KEY, con_columns = cols, con_referencedTable = Some target,
      con_referencedColumns = Some [''id'']\<rparr>"

definition usersTable :: SQLTable where
  "usersTable = \<lparr>tbl_name = ''users'',
     tbl_columns = [sampleColumn ''id'' ''SERIAL'' False True], tbl_constraints = []\<rparr>"

definition postsTable :: SQLTable where
  "postsTable = \<lparr>tbl_name = ''posts'',
     tbl_columns = [sampleColumn ''id'' ''SERIAL'' False True,
                    sampleColumn ''author_id'' ''INTEGER'' True False],
     tbl_constraints = [sampleForeignKey [''author_id''] ''users'']\<rparr>"

definition nullableKeyTable :: SQLTable where
  "nullableKeyTable = \<lparr>tbl_name = ''account'',
     tbl_columns = [sampleColumn ''id'' ''SERIAL'' True True], tbl_constraints = []\<rparr>"

definition accountTable :: SQLTable where
  "accountTable = \<lparr>tbl_name = ''account'',
     tbl_columns = [sampleColumn ''id'' ''INTEGER'' True False], tbl_constraints = []\<rparr>"

definition invoiceTable :: SQLTable where
  "invoiceTable = \<lparr>tbl_name = ''Invoice'',
     tbl_columns = [sampleColumn ''id'' ''INTEGER'' True False], tbl_constraints = []\<rparr>"


definition scenarioSQL :: string where
  "scenarioSQL = ''CREATE TABLE users (id SERIAL PRIMARY KEY, email VARCHAR(255) UNIQUE NOT NULL); CREATE TABLE posts (id SERIAL PRIMARY KEY, author_id INTEGER REFERENCES users(id));''"

definition scenarioUsers :: SQLTable where
  "scenarioUsers = \<lparr>tbl_name = ''users'',
     tbl_columns = [sampleColumn ''id'' ''SERIAL'' False True,
                    \<lparr>col_name = ''email'', col_type = ''VARCHAR'', col_nullable = False,
                     col_defaultValue = None, col_isPrimaryKey = False, col_isUnique = True,
                     col_length = Some (Finite 255), col_isEnum = Some False\<rparr>],
     tbl_constraints = []\<rparr>"

definition fkClauseSQL :: string where
  "fkClauseSQL = ''CREATE TABLE posts (id INTEGER, author_id INTEGER, FOREIGN KEY (author_id) REFERENCES users(id));''"

definition fkClause :: string where
  "fkClause = ''FOREIGN KEY (author_id) REFERENCES users(id)''"

definition twoKeysSQL :: string where
  "twoKeysSQL = ''CREATE TABLE players (id SERIAL PRIMARY KEY); CREATE TABLE matches (id SERIAL PRIMARY KEY, home_team_player_id INTEGER REFERENCES players(id), away_team_player_id INTEGER REFERENCES players(id));''"


definition brokenSQL :: string where
  "brokenSQL = ''CREATE TABLE broken (id INTEGER; CREATE TABLE users (id SERIAL PRIMARY KEY);''"

definition brokenStatement :: string where
  "brokenStatement = ''CREATE TABLE broken (id INTEGER''"

definition usersStatement :: string where
  "usersStatement = '' CREATE TABLE users (id SERIAL PRIMARY KEY)''"

definition brokenColumnSQL :: string where
  "brokenColumnSQL = ''CREATE TABLE broken (id INTEGER, name VARCHAR(50); CREATE TABLE users (id SERIAL PRIMARY KEY);''"

definition mapSQL :: string where
  "mapSQL = ''CREATE TABLE account (id INTEGER); CREATE TABLE Invoice (id INTEGER);''"






section \<open>Evaluation\<close>

text \<open>The character classes and the case conversion, as equations on the bits of the
  character; each is checked on all 256 characters.  They are the equations with which
  concrete inputs are evaluated.\<close>

lemma toUpperChar_all:
  "\<forall>b0 b1 b2 b3 b4 b5 b6 b7. toUpperChar (Char b0 b1 b2 b3 b4 b5 b6 b7) =
     (if \<not> b7 \<and> b6 \<and> b5 \<and> lowFive b0 b1 b2 b3 b4
      then Char b0 b1 b2 b3 b4 False b6 b7 else Char b0 b1 b2 b3 b4 b5 b6 b7)"
  by code_simp

lemma toLowerChar_all:
  "\<forall>b0 b1 b2 b3 b4 b5 b6 b7. toLowerChar (Char b0 b1 b2 b3 b4 b5 b6 b7) =
     (if \<not> b7 \<and> b6 \<and> \<not> b5 \<and> lowFive b0 b1 b2 b3 b4
      then Char b0 b1 b2 b3 b4 True b6 b7 else Char b0 b1 b2 b3 b4 b5 b6 b7)"
  by code_simp

lemma isDigitChar_all:
  "\<forall>b0 b1 b2 b3 b4 b5 b6 b7. isDigitChar (Char b0 b1 b2 b3 b4 b5 b6 b7) =
     (\<not> b7 \<and> \<not> b6 \<and> b5 \<and> b4 \<and> \<not> (b3 \<and> (b2 \<or> b1)))"
  by code_simp

lemma isWordChar_all:
  "\<forall>b0 b1 b2 b3 b4 b5 b6 b7. isWordChar (Char b0 b1 b2 b3 b4 b5 b6 b7) =
     (\<not> b7 \<and>
      ((b6 \<and> lowFive b0 b1 b2 b3 b4)
       \<or> (\<not> b6 \<and> b5 \<and> b4 \<and> \<not> (b3 \<and> (b2 \<or> b1)))
       \<or> (b6 \<and> \<not> b5 \<and> b4 \<and> b3 \<and> b2 \<and> b1 \<and> b0)))"
  by code_simp

lemma isSpaceChar_all:
  "\<forall>b0 b1 b2 b3 b4 b5 b6 b7. isSpaceChar (Char b0 b1 b2 b3 b4 b5 b6 b7) =
     ((\<not> b7 \<and> \<not> b6 \<and> \<not> b5 \<and> \<not> b4 \<and> b3 \<and> ((b0 \<or> b1 \<or> b2) \<and> \<not> (b2 \<and> b1)))
      \<or> (\<not> b6 \<and> b5 \<and> \<not> b4 \<and> \<not> b3 \<and> \<not> b2 \<and> \<not> b1 \<and> \<not> b0))"
  by code_simp

lemma toUpperChar_bits [code]:
  "toUpperChar (Char b0 b1 b2 b3 b4 b5 b6 b7) =
     (if \<not> b7 \<and> b6 \<and> b5 \<and> lowFive b0 b1 b2 b3 b4
      then Char b0 b1 b2 b3 b4 False b6 b7 else Char b0 b1 b2 b3 b4 b5 b6 b7)"
  by (rule toUpperChar_all[rule_format])

lemma toLowerChar_bits [code]:
  "toLowerChar (Char b0 b1 b2 b3 b4 b5 b6 b7) =
     (if \<not> b7 \<and> b6 \<and> \<not> b5 \<and> lowFive b0 b1 b2 b3 b4
      then Char b0 b1 b2 b3 b4 True b6 b7 else Char b0 b1 b2 b3 b4 b5 b6 b7)"
  by (rule toLowerChar_all[rule_format])

lemma isDigitChar_bits [code]:
  "isDigitChar (Char b0 b1 b2 b3 b4 b5 b6 b7) =
     (\<not> b7 \<and> \<not> b6 \<and> b5 \<and> b4 \<and> \<not> (b3 \<and> (b2 \<or> b1)))"
  by (rule isDigitChar_all[rule_format])

lemma isWordChar_bits [code]:
  "isWordChar (Char b0 b1 b2 b3 b4 b5 b6 b7) =
     (\<not> b7 \<and>
      ((b6 \<and> lowFive b0 b1 b2 b3 b4)
       \<or> (\<not> b6 \<and> b5 \<and> b4 \<and> \<not> (b3 \<and> (b2 \<or> b1)))
       \<or> (b6 \<and> \<not> b5 \<and> b4 \<and> b3 \<and> b2 \<and> b1 \<and> b0)))"
  by (rule isWordChar_all[rule_format])

lemma isSpaceChar_bits [code]:
  "isSpaceChar (Char b0 b1 b2 b3 b4 b5 b6 b7) =
     ((\<not> b7 \<and> \<not> b6 \<and> \<not> b5 \<and> \<not> b4 \<and> b3 \<and> ((b0 \<or> b1 \<or> b2) \<and> \<not> (b2 \<and> b1)))
      \<or> (\<not> b6 \<and> b5 \<and> \<not> b4 \<and> \<not> b3 \<and> \<not> b2 \<and> \<not> b1 \<and> \<not> b0))"
  by (rule isSpaceChar_all[rule_format])

section \<open>Properties of the generator\<close>

subsection \<open>The relation pass keeps the names and the attributes of the models\<close>

lemma findModel_Some_bound:
  "findModel n ms = Some i \<Longrightarrow> i < length ms \<and> mdl_name (ms ! i) = n"
  by (induction ms arbitrary: i) (auto split: if_splits)

lemma findModel_None_iff: "findModel n ms = None \<longleftrightarrow> n \<notin> set (map mdl_name ms)"
  by (induction ms) auto


lemma pushField_names:
  "pushField model field models = Inr models' \<Longrightarrow> map mdl_name models' = map mdl_name models"
proof (cases model)
  case None
  assume "pushField model field models = Inr models'"
  with None show ?thesis by (simp add: pushField_def)
next
  case (Some i)
  assume "pushField model field models = Inr models'"
  with Some have "models' = models[i := (models ! i)\<lparr>mdl_fields := mdl_fields (models ! i) @ [field]\<rparr>]"
    by (simp add: pushField_def)
  then show ?thesis
    by (simp add: map_update) (metis list_update_id map_update)
qed

lemma pushField_Some: "pushField (Some i) field models \<noteq> Inl e"
  by (simp add: pushField_def)

lemma processConstraint_names:
  assumes "processConstraint table model st constraint = Inr st'"
  shows "map mdl_name (fst st') = map mdl_name (fst st)"
  using assms
  by (auto simp: processConstraint_def Let_def split: if_splits sum.splits option.splits prod.splits
           dest!: pushField_names)

lemma generateUniqueRelationName_error:
  "generateUniqueRelationName a b col rc = Inl e \<Longrightarrow> e = ReplaceOnUndefinedColumn"
  by (auto simp: generateUniqueRelationName_def Let_def split: if_splits option.splits)

lemma generateUniqueRelationName_Some:
  "\<exists>r. generateUniqueRelationName a b (Some col) rc = Inr r"
  by (simp add: generateUniqueRelationName_def Let_def)

lemma processConstraint_no_push_error:
  "processConstraint table (Some i) st constraint \<noteq> Inl PushOnUndefinedModel"
  by (auto simp: processConstraint_def Let_def pushField_Some
           split: if_splits sum.splits option.splits prod.splits
           dest: generateUniqueRelationName_error)

lemma forEachE_constraints:
  "forEachE (processConstraint table (Some i)) cs st \<noteq> Inl PushOnUndefinedModel \<and>
   (\<forall>st'. forEachE (processConstraint table (Some i)) cs st = Inr st'
      \<longrightarrow> map mdl_name (fst st') = map mdl_name (fst st))"
proof (induction cs arbitrary: st)
  case Nil
  show ?case by simp
next
  case (Cons c cs)
  show ?case
  proof (cases "processConstraint table (Some i) st c")
    case (Inl e)
    then show ?thesis using processConstraint_no_push_error[of table i st c] by auto
  next
    case (Inr st1)
    then show ?thesis using Cons[of st1] processConstraint_names[OF Inr] by auto
  qed
qed

lemma forEachE_constraints_names:
  "forEachE (processConstraint table model) cs st = Inr st'
     \<Longrightarrow> map mdl_name (fst st') = map mdl_name (fst st)"
proof (induction cs arbitrary: st)
  case Nil
  then show ?case by simp
next
  case (Cons c cs)
  then show ?case
    by (auto split: sum.splits dest: processConstraint_names)
qed

lemma processTable_names:
  "processTable st table = Inr st' \<Longrightarrow> map mdl_name (fst st') = map mdl_name (fst st)"
  by (auto simp: processTable_def Let_def dest: forEachE_constraints_names)

lemma processTable_no_push_error:
  assumes "toPascalCase (tbl_name table) \<in> set (map mdl_name (fst st))"
  shows "processTable st table \<noteq> Inl PushOnUndefinedModel"
proof -
  from assms obtain i where "findModel (toPascalCase (tbl_name table)) (fst st) = Some i"
    using findModel_None_iff[of "toPascalCase (tbl_name table)" "fst st"] by (cases "findModel (toPascalCase (tbl_name table)) (fst st)") auto
  then show ?thesis using forEachE_constraints[of table i "tbl_constraints table" st]
    by (simp add: processTable_def)
qed

lemma secondPass_names:
  "secondPass tables st = Inr st' \<Longrightarrow> map mdl_name (fst st') = map mdl_name (fst st)"
  unfolding secondPass_def
proof (induction tables arbitrary: st)
  case Nil
  then show ?case by simp
next
  case (Cons t ts)
  then show ?case by (auto split: sum.splits dest: processTable_names)
qed

lemma secondPass_no_push_error:
  assumes "\<forall>t \<in> set tables. toPascalCase (tbl_name t) \<in> set (map mdl_name (fst st))"
  shows "secondPass tables st \<noteq> Inl PushOnUndefinedModel"
  using assms unfolding secondPass_def
proof (induction tables arbitrary: st)
  case Nil
  then show ?case by simp
next
  case (Cons t ts)
  show ?case
  proof (cases "processTable st t")
    case (Inl e)
    then show ?thesis using processTable_no_push_error[of t st] Cons.prems by auto
  next
    case (Inr st1)
    have "map mdl_name (fst st1) = map mdl_name (fst st)" using processTable_names[OF Inr] .
    then show ?thesis using Cons.IH[of st1] Cons.prems Inr by auto
  qed
qed

lemma firstPass_names:
  "map mdl_name (firstPass tables enums) = map (\<lambda>t. toPascalCase (tbl_name t)) tables"
  by (simp add: firstPass_def createBasicModel_def Let_def)

lemma pushField_attributes:
  "pushField model field models = Inr models' \<Longrightarrow> map mdl_attributes models' = map mdl_attributes models"
proof (cases model)
  case None
  assume "pushField model field models = Inr models'"
  with None show ?thesis by (simp add: pushField_def)
next
  case (Some i)
  assume "pushField model field models = Inr models'"
  with Some have "models' = models[i := (models ! i)\<lparr>mdl_fields := mdl_fields (models ! i) @ [field]\<rparr>]"
    by (simp add: pushField_def)
  then show ?thesis
    by (simp add: map_update) (metis list_update_id map_update)
qed

lemma processConstraint_attributes:
  assumes "processConstraint table model st constraint = Inr st'"
  shows "map mdl_attributes (fst st') = map mdl_attributes (fst st)"
  using assms
  by (auto simp: processConstraint_def Let_def split: if_splits sum.splits option.splits prod.splits
           dest!: pushField_attributes)

lemma forEachE_constraints_attributes:
  "forEachE (processConstraint table model) cs st = Inr st'
     \<Longrightarrow> map mdl_attributes (fst st') = map mdl_attributes (fst st)"
proof (induction cs arbitrary: st)
  case Nil
  then show ?case by simp
next
  case (Cons c cs)
  then show ?case
    by (auto split: sum.splits dest: processConstraint_attributes)
qed

lemma secondPass_attributes:
  "secondPass tables st = Inr st' \<Longrightarrow> map mdl_attributes (fst st') = map mdl_attributes (fst st)"
  unfolding secondPass_def
proof (induction tables arbitrary: st)
  case Nil
  then show ?case by simp
next
  case (Cons t ts)
  then show ?case
    by (auto simp: processTable_def split: sum.splits dest: forEachE_constraints_attributes)
qed

lemma convertTablesToModels_names:
  "convertTablesToModels tables enums = Inr models
     \<Longrightarrow> map mdl_name models = map (\<lambda>t. toPascalCase (tbl_name t)) tables"
  by (auto simp: convertTablesToModels_def firstPass_names split: sum.splits
           dest!: secondPass_names)

lemma convertTablesToModels_attributes:
  "convertTablesToModels tables enums = Inr models
     \<Longrightarrow> map mdl_attributes models = map mdl_attributes (firstPass tables enums)"
  by (auto simp: convertTablesToModels_def split: sum.splits dest!: secondPass_attributes)

subsection \<open>The relation pass only appends fields\<close>

lemma extends_refl: "extends ms ms"
  by (simp add: extends_def)

lemma extends_trans: "extends a b \<Longrightarrow> extends b c \<Longrightarrow> extends a c"
  unfolding extends_def by (metis append.assoc)

lemma pushField_extends: "pushField model field models = Inr models' \<Longrightarrow> extends models models'"
proof (cases model)
  case None
  assume "pushField model field models = Inr models'"
  with None show ?thesis by (simp add: pushField_def)
next
  case (Some i)
  assume "pushField model field models = Inr models'"
  with Some have m: "models' = models[i := (models ! i)\<lparr>mdl_fields := mdl_fields (models ! i) @ [field]\<rparr>]"
    by (simp add: pushField_def)
  show ?thesis
    unfolding extends_def m
  proof (intro conjI allI impI)
    show "length (models[i := (models ! i)\<lparr>mdl_fields := mdl_fields (models ! i) @ [field]\<rparr>])
            = length models" by simp
  next
    fix j assume "j < length models"
    then show "\<exists>extra. mdl_fields (models[i := (models ! i)\<lparr>mdl_fields := mdl_fields (models ! i) @ [field]\<rparr>] ! j)
                 = mdl_fields (models ! j) @ extra"
      by (cases "j = i") simp_all
  qed
qed

lemma processConstraint_extends:
  assumes "processConstraint table model st constraint = Inr st'"
  shows "extends (fst st) (fst st')"
  using assms
  by (auto simp: processConstraint_def Let_def extends_refl
           split: if_splits sum.splits option.splits prod.splits
           dest!: pushField_extends intro: extends_trans)

lemma forEachE_constraints_extends:
  "forEachE (processConstraint table model) cs st = Inr st' \<Longrightarrow> extends (fst st) (fst st')"
proof (induction cs arbitrary: st)
  case Nil
  then show ?case by (simp add: extends_refl)
next
  case (Cons c cs)
  then show ?case
    by (auto split: sum.splits dest!: processConstraint_extends intro: extends_trans)
qed

lemma forEachE_tables_extends:
  "forEachE processTable ts st = Inr st' \<Longrightarrow> extends (fst st) (fst st')"
proof (induction ts arbitrary: st)
  case Nil
  then show ?case by (simp add: extends_refl)
next
  case (Cons t ts)
  then show ?case
    by (auto simp: processTable_def split: sum.splits
             dest!: forEachE_constraints_extends intro: extends_trans)
qed





lemma convertTablesToModels_extends:
  "convertTablesToModels tables enums = Inr models \<Longrightarrow> extends (firstPass tables enums) models"
  by (auto simp: convertTablesToModels_def secondPass_def split: sum.splits
           dest!: forEachE_tables_extends)

subsection \<open>Generation returns on tables all of whose constraints have a column\<close>

lemma processConstraint_no_replace_error:
  "hasColumn c \<Longrightarrow> processConstraint table model st c \<noteq> Inl ReplaceOnUndefinedColumn"
proof -
  assume "hasColumn c"
  then obtain col cols where cols: "con_columns c = col # cols"
    by (cases "con_columns c") (auto simp: hasColumn_def)
  obtain r where r: "generateUniqueRelationName (tbl_name table) (the (con_referencedTable c))
      (Some col) (snd st) = Inr r"
    using generateUniqueRelationName_Some by blast
  show ?thesis
    by (cases r) (auto simp: processConstraint_def Let_def first_def cols r pushField_def
        split: option.splits sum.splits)
qed

lemma forEachE_no_replace_error:
  "list_all hasColumn cs \<Longrightarrow>
   forEachE (processConstraint table model) cs st \<noteq> Inl ReplaceOnUndefinedColumn"
proof (induction cs arbitrary: st)
  case Nil
  then show ?case by simp
next
  case (Cons c cs)
  then show ?case
    using processConstraint_no_replace_error[of c table model st]
    by (auto split: sum.splits)
qed

lemma secondPass_no_replace_error:
  "tablesHaveColumns tables \<Longrightarrow> secondPass tables st \<noteq> Inl ReplaceOnUndefinedColumn"
  unfolding secondPass_def
proof (induction tables arbitrary: st)
  case Nil
  then show ?case by simp
next
  case (Cons t ts)
  then show ?case
    using forEachE_no_replace_error[of "tbl_constraints t" t
            "findModel (toPascalCase (tbl_name t)) (fst st)" st]
    by (auto simp: tablesHaveColumns_def processTable_def split: sum.splits)
qed

lemma convertTablesToModels_returns:
  assumes "tablesHaveColumns tables"
  shows "\<exists>models. convertTablesToModels tables enums = Inr models"
proof (cases "convertTablesToModels tables enums")
  case (Inl e)
  have "secondPass tables (firstPass tables enums, Map.empty) = Inl e"
    using Inl by (auto simp: convertTablesToModels_def split: sum.splits)
  moreover have "\<forall>t \<in> set tables. toPascalCase (tbl_name t) \<in> set (map mdl_name (firstPass tables enums))"
    by (simp add: firstPass_names)
  ultimately show ?thesis
    using secondPass_no_replace_error[OF assms, of "(firstPass tables enums, Map.empty)"]
      secondPass_no_push_error[of tables "(firstPass tables enums, Map.empty)"]
    by (cases e) auto
next
  case (Inr models)
  then show ?thesis by blast
qed

subsection \<open>Scalar fields\<close>

lemma convertColumnToField_optional:
  "fld_isOptional (convertColumnToField column table enums)
     = (col_nullable column \<and> \<not> col_isPrimaryKey column)"
  by (simp add: convertColumnToField_def Let_def)

lemma convertColumnToField_autoincrement:
  "col_isPrimaryKey column \<Longrightarrow> col_type column = ''SERIAL'' \<or> col_type column = ''BIGSERIAL''
     \<Longrightarrow> ''@id @default(autoincrement())''
           \<in> set (fld_attributes (convertColumnToField column table enums))"
  by (simp add: convertColumnToField_def columnAttributes_def Let_def)

text \<open>The fields of a generated model begin with the scalar fields of the columns of its
  table, in the order of the columns; the relation fields come after them.\<close>

lemma generated_scalar_fields:
  assumes run: "convertTablesToModels tables enums = Inr models" and j: "j < length tables"
  shows "j < length models
         \<and> (\<exists>relations. mdl_fields (models ! j)
               = map (\<lambda>column. convertColumnToField column (tables ! j) enums)
                     (tbl_columns (tables ! j)) @ relations)"
proof -
  have e: "extends (firstPass tables enums) models"
    using convertTablesToModels_extends[OF run] .
  have len: "length models = length tables"
    using e by (simp add: extends_def firstPass_def)
  have jf: "j < length (firstPass tables enums)" using j by (simp add: firstPass_def)
  obtain extra where "mdl_fields (models ! j) = mdl_fields (firstPass tables enums ! j) @ extra"
    using e jf by (auto simp: extends_def)
  moreover have "mdl_fields (firstPass tables enums ! j)
      = map (\<lambda>column. convertColumnToField column (tables ! j) enums) (tbl_columns (tables ! j))"
    using j by (simp add: firstPass_def createBasicModel_def Let_def)
  ultimately show ?thesis using len j by simp
qed

text \<open>
  Claim C6.  Generation returns models for every list of tables all of whose constraints
  have a column.  In the models that generation returns, for every table and every column
  of it, the field of the model of the table at the position of the column is the scalar
  field of the column: it is optional exactly when the column is nullable and not a
  primary key, so the field of a primary key is never optional; and the field of a
  primary-key column of type \<open>SERIAL\<close> or \<open>BIGSERIAL\<close> carries the attribute
  \<open>@id @default(autoincrement())\<close>.
\<close>

theorem scalar_field_optional_and_autoincrement:
  "(tablesHaveColumns tables \<longrightarrow> (\<exists>models. convertTablesToModels tables enums = Inr models))
   \<and> (\<forall>models j k.
        convertTablesToModels tables enums = Inr models \<longrightarrow> j < length tables
        \<longrightarrow> k < length (tbl_columns (tables ! j))
        \<longrightarrow> j < length models \<and> k < length (mdl_fields (models ! j))
            \<and> mdl_fields (models ! j) ! k
                = convertColumnToField (tbl_columns (tables ! j) ! k) (tables ! j) enums
            \<and> fld_isOptional (mdl_fields (models ! j) ! k)
                = (col_nullable (tbl_columns (tables ! j) ! k)
                   \<and> \<not> col_isPrimaryKey (tbl_columns (tables ! j) ! k))
            \<and> (col_isPrimaryKey (tbl_columns (tables ! j) ! k)
                 \<longrightarrow> \<not> fld_isOptional (mdl_fields (models ! j) ! k))
            \<and> (col_isPrimaryKey (tbl_columns (tables ! j) ! k)
                 \<and> (col_type (tbl_columns (tables ! j) ! k) = ''SERIAL''
                      \<or> col_type (tbl_columns (tables ! j) ! k) = ''BIGSERIAL'')
                 \<longrightarrow> ''@id @default(autoincrement())''
                       \<in> set (fld_attributes (mdl_fields (models ! j) ! k))))"
proof (intro conjI allI impI)
  assume "tablesHaveColumns tables"
  then show "\<exists>models. convertTablesToModels tables enums = Inr models"
    by (rule convertTablesToModels_returns)
next
  fix models j k
  assume run: "convertTablesToModels tables enums = Inr models" and j: "j < length tables"
    and k: "k < length (tbl_columns (tables ! j))"
  let ?column = "tbl_columns (tables ! j) ! k"
  obtain relations where jm: "j < length models"
    and fields: "mdl_fields (models ! j)
               = map (\<lambda>column. convertColumnToField column (tables ! j) enums)
                     (tbl_columns (tables ! j)) @ relations"
    using generated_scalar_fields[OF run j] by blast
  have field: "mdl_fields (models ! j) ! k = convertColumnToField ?column (tables ! j) enums"
    using k by (simp add: fields nth_append)
  show "j < length models" using jm .
  show "k < length (mdl_fields (models ! j))" using k by (simp add: fields)
  show "mdl_fields (models ! j) ! k = convertColumnToField ?column (tables ! j) enums"
    using field .
  show "fld_isOptional (mdl_fields (models ! j) ! k)
          = (col_nullable ?column \<and> \<not> col_isPrimaryKey ?column)"
    by (simp add: field convertColumnToField_optional)
  show "\<not> fld_isOptional (mdl_fields (models ! j) ! k)" if "col_isPrimaryKey ?column"
    using that by (simp add: field convertColumnToField_optional)
  show "''@id @default(autoincrement())'' \<in> set (fld_attributes (mdl_fields (models ! j) ! k))"
    if "col_isPrimaryKey ?column
        \<and> (col_type ?column = ''SERIAL'' \<or> col_type ?column = ''BIGSERIAL'')"
    using that convertColumnToField_autoincrement[of ?column "tables ! j" enums]
    by (simp add: field)
qed

lemma nullable_key_models:
  "convertTablesToModels [nullableKeyTable] [] = Inr [createBasicModel nullableKeyTable []]"
  by (simp add: convertTablesToModels_def secondPass_def processTable_def firstPass_def
        nullableKeyTable_def)

lemma nullable_key_facts:
  "tablesHaveColumns [nullableKeyTable]"
  "(0::nat) < length [nullableKeyTable]"
  "(0::nat) < length (tbl_columns ([nullableKeyTable] ! 0))"
  "tbl_columns ([nullableKeyTable] ! 0) ! 0 = sampleColumn ''id'' ''SERIAL'' True True"
  "col_isPrimaryKey (sampleColumn ''id'' ''SERIAL'' True True)"
  "col_nullable (sampleColumn ''id'' ''SERIAL'' True True)"
  "col_type (sampleColumn ''id'' ''SERIAL'' True True) = ''SERIAL''"
  by (simp_all add: tablesHaveColumns_def nullableKeyTable_def sampleColumn_def)

theorem scalar_field_optional_and_autoincrement_witness:
  "tablesHaveColumns [nullableKeyTable]
   \<and> convertTablesToModels [nullableKeyTable] [] = Inr [createBasicModel nullableKeyTable []]
   \<and> (0::nat) < length [nullableKeyTable]
   \<and> (0::nat) < length (tbl_columns ([nullableKeyTable] ! 0))
   \<and> tbl_columns ([nullableKeyTable] ! 0) ! 0 = sampleColumn ''id'' ''SERIAL'' True True
   \<and> col_isPrimaryKey (sampleColumn ''id'' ''SERIAL'' True True)
   \<and> col_nullable (sampleColumn ''id'' ''SERIAL'' True True)
   \<and> col_type (sampleColumn ''id'' ''SERIAL'' True True) = ''SERIAL''
   \<and> mdl_fields (createBasicModel nullableKeyTable []) ! 0
       = convertColumnToField (sampleColumn ''id'' ''SERIAL'' True True) nullableKeyTable []
   \<and> \<not> fld_isOptional (mdl_fields (createBasicModel nullableKeyTable []) ! 0)
   \<and> ''@id @default(autoincrement())''
        \<in> set (fld_attributes (mdl_fields (createBasicModel nullableKeyTable []) ! 0))"
proof -
  note inst = scalar_field_optional_and_autoincrement[of "[nullableKeyTable]" "[]"]
  from inst have all: "\<forall>models j k.
        convertTablesToModels [nullableKeyTable] [] = Inr models \<longrightarrow> j < length [nullableKeyTable]
        \<longrightarrow> k < length (tbl_columns ([nullableKeyTable] ! j))
        \<longrightarrow> j < length models \<and> k < length (mdl_fields (models ! j))
            \<and> mdl_fields (models ! j) ! k
                = convertColumnToField (tbl_columns ([nullableKeyTable] ! j) ! k) ([nullableKeyTable] ! j) []
            \<and> fld_isOptional (mdl_fields (models ! j) ! k)
                = (col_nullable (tbl_columns ([nullableKeyTable] ! j) ! k)
                   \<and> \<not> col_isPrimaryKey (tbl_columns ([nullableKeyTable] ! j) ! k))
            \<and> (col_isPrimaryKey (tbl_columns ([nullableKeyTable] ! j) ! k)
                 \<longrightarrow> \<not> fld_isOptional (mdl_fields (models ! j) ! k))
            \<and> (col_isPrimaryKey (tbl_columns ([nullableKeyTable] ! j) ! k)
                 \<and> (col_type (tbl_columns ([nullableKeyTable] ! j) ! k) = ''SERIAL''
                      \<or> col_type (tbl_columns ([nullableKeyTable] ! j) ! k) = ''BIGSERIAL'')
                 \<longrightarrow> ''@id @default(autoincrement())''
                       \<in> set (fld_attributes (mdl_fields (models ! j) ! k)))"
    by (rule conjunct2)
  have at: "mdl_fields ([createBasicModel nullableKeyTable []] ! 0) ! 0
                = convertColumnToField (tbl_columns ([nullableKeyTable] ! 0) ! 0) ([nullableKeyTable] ! 0) []
            \<and> (col_isPrimaryKey (tbl_columns ([nullableKeyTable] ! 0) ! 0)
                 \<longrightarrow> \<not> fld_isOptional (mdl_fields ([createBasicModel nullableKeyTable []] ! 0) ! 0))
            \<and> (col_isPrimaryKey (tbl_columns ([nullableKeyTable] ! 0) ! 0)
                 \<and> (col_type (tbl_columns ([nullableKeyTable] ! 0) ! 0) = ''SERIAL''
                      \<or> col_type (tbl_columns ([nullableKeyTable] ! 0) ! 0) = ''BIGSERIAL'')
                 \<longrightarrow> ''@id @default(autoincrement())''
                       \<in> set (fld_attributes (mdl_fields ([createBasicModel nullableKeyTable []] ! 0) ! 0)))"
    using all[rule_format, OF nullable_key_models nullable_key_facts(2) nullable_key_facts(3)]
    by blast
  note at' = at[unfolded nullable_key_facts(4), unfolded nth_Cons_0]
  from at' have field: "mdl_fields (createBasicModel nullableKeyTable []) ! 0
       = convertColumnToField (sampleColumn ''id'' ''SERIAL'' True True) nullableKeyTable []"
    by (rule conjunct1)
  from at' nullable_key_facts(5)
  have opt: "\<not> fld_isOptional (mdl_fields (createBasicModel nullableKeyTable []) ! 0)"
    by blast
  from at' nullable_key_facts(5) nullable_key_facts(7)
  have auto_inc: "''@id @default(autoincrement())''
        \<in> set (fld_attributes (mdl_fields (createBasicModel nullableKeyTable []) ! 0))"
    by blast
  show ?thesis
    using nullable_key_models nullable_key_facts field opt auto_inc
    by (intro conjI) assumption+
qed

subsection \<open>The lookup of the source model\<close>

text \<open>
  Claim C10.  In the relation pass the lookup of the source model by the PascalCase table
  name succeeds at every iteration: whatever state the pass has reached after the first
  \<open>k\<close> tables, \<open>find\<close> gives a model for table \<open>k\<close>, and the pass never throws the
  \<open>TypeError\<close> of a push on \<open>undefined\<close>.
\<close>

theorem source_model_lookup_succeeds:
  "convertTablesToModels tables enums \<noteq> Inl PushOnUndefinedModel \<and>
   (\<forall>k st. k < length tables \<longrightarrow>
      secondPass (take k tables) (firstPass tables enums, Map.empty) = Inr st \<longrightarrow>
      (\<exists>i. findModel (toPascalCase (tbl_name (tables ! k))) (fst st) = Some i
           \<and> i < length (fst st)))"
proof (intro conjI allI impI)
  have "\<forall>t \<in> set tables. toPascalCase (tbl_name t) \<in> set (map mdl_name (firstPass tables enums))"
    by (simp add: firstPass_names)
  then have "secondPass tables (firstPass tables enums, Map.empty) \<noteq> Inl PushOnUndefinedModel"
    using secondPass_no_push_error[of tables "(firstPass tables enums, Map.empty)"] by simp
  then show "convertTablesToModels tables enums \<noteq> Inl PushOnUndefinedModel"
    by (auto simp: convertTablesToModels_def split: sum.splits)
next
  fix k st
  assume k: "k < length tables"
    and run: "secondPass (take k tables) (firstPass tables enums, Map.empty) = Inr st"
  have "map mdl_name (fst st) = map (\<lambda>t. toPascalCase (tbl_name t)) tables"
    using secondPass_names[OF run] by (simp add: firstPass_names)
  then have "toPascalCase (tbl_name (tables ! k)) \<in> set (map mdl_name (fst st))"
    using k by auto
  then obtain i where "findModel (toPascalCase (tbl_name (tables ! k))) (fst st) = Some i"
    using findModel_None_iff[of "toPascalCase (tbl_name (tables ! k))" "fst st"]
    by (cases "findModel (toPascalCase (tbl_name (tables ! k))) (fst st)") auto
  then show "\<exists>i. findModel (toPascalCase (tbl_name (tables ! k))) (fst st) = Some i
           \<and> i < length (fst st)"
    using findModel_Some_bound by blast
qed

theorem source_model_lookup_succeeds_witness:
  "(1::nat) < length [usersTable, postsTable]
   \<and> secondPass (take 1 [usersTable, postsTable]) (firstPass [usersTable, postsTable] [], Map.empty)
       = Inr (firstPass [usersTable, postsTable] [], Map.empty)
   \<and> (\<exists>i. findModel (toPascalCase (tbl_name ([usersTable, postsTable] ! 1)))
              (firstPass [usersTable, postsTable] []) = Some i
          \<and> i < length (firstPass [usersTable, postsTable] []))"
proof -
  have run: "secondPass (take 1 [usersTable, postsTable]) (firstPass [usersTable, postsTable] [], Map.empty)
       = Inr (firstPass [usersTable, postsTable] [], Map.empty)"
    by (simp add: secondPass_def processTable_def usersTable_def)
  have len: "(1::nat) < length [usersTable, postsTable]" by simp
  from source_model_lookup_succeeds[of "[usersTable, postsTable]" "[]"] len run
  have "\<exists>i. findModel (toPascalCase (tbl_name ([usersTable, postsTable] ! 1)))
              (fst (firstPass [usersTable, postsTable] [], Map.empty :: string \<rightharpoonup> nat)) = Some i
          \<and> i < length (fst (firstPass [usersTable, postsTable] [], Map.empty :: string \<rightharpoonup> nat))"
    by blast
  with len run show ?thesis by simp
qed

subsection \<open>Parses of the sample inputs\<close>

lemma scenario_parsed:
  "parseSQL scenarioSQL = Inr \<lparr>res_tables = [scenarioUsers, postsTable], res_enums = []\<rparr>"
  by code_simp

lemma two_keys_parsed:
  "parseSQL twoKeysSQL =
     Inr \<lparr>res_tables =
        [\<lparr>tbl_name = ''players'', tbl_columns = [sampleColumn ''id'' ''SERIAL'' False True],
          tbl_constraints = []\<rparr>,
         \<lparr>tbl_name = ''matches'',
          tbl_columns = [sampleColumn ''id'' ''SERIAL'' False True,
                         sampleColumn ''home_team_player_id'' ''INTEGER'' True False,
                         sampleColumn ''away_team_player_id'' ''INTEGER'' True False],
          tbl_constraints = [sampleForeignKey [''home_team_player_id''] ''players'',
                             sampleForeignKey [''away_team_player_id''] ''players'']\<rparr>],
      res_enums = []\<rparr>"
  by code_simp


subsection \<open>The table-level name mapping\<close>

text \<open>
  Claim C3, as amended.  Generation returns models for every list of tables all of whose
  constraints have a column.  In the models that generation returns, the model of every
  table carries exactly one table-level attribute, \<open>@@map("<table name>")\<close>, when the
  name of the table differs from the lower-cased name of the model, and no attribute when
  the two are equal.
\<close>

theorem map_attribute_iff_differs_from_lowercased_model_name:
  "(tablesHaveColumns tables \<longrightarrow> (\<exists>models. convertTablesToModels tables enums = Inr models))
   \<and> (\<forall>models k.
        convertTablesToModels tables enums = Inr models \<longrightarrow> k < length tables
        \<longrightarrow> k < length models
            \<and> mdl_attributes (models ! k)
                = (if tbl_name (tables ! k) \<noteq> toLowerCase (mdl_name (models ! k))
                   then [''@@map('' @ dq @ tbl_name (tables ! k) @ dq @ '')''] else []))"
proof (intro conjI allI impI)
  assume "tablesHaveColumns tables"
  then show "\<exists>models. convertTablesToModels tables enums = Inr models"
    by (rule convertTablesToModels_returns)
next
  fix models k
  assume run: "convertTablesToModels tables enums = Inr models" and k: "k < length tables"
  have names: "map mdl_name models = map (\<lambda>t. toPascalCase (tbl_name t)) tables"
    using convertTablesToModels_names[OF run] .
  have attributes: "map mdl_attributes models = map mdl_attributes (firstPass tables enums)"
    using convertTablesToModels_attributes[OF run] .
  have len: "length models = length tables"
    using names by (metis length_map)
  show km: "k < length models" using k len by simp
  have name: "mdl_name (models ! k) = toPascalCase (tbl_name (tables ! k))"
    using names k km by (metis nth_map)
  have "mdl_attributes (models ! k) = mdl_attributes (firstPass tables enums ! k)"
    using attributes k km by (metis length_map nth_map)
  also have "\<dots> = mdl_attributes (createBasicModel (tables ! k) enums)"
    using k by (simp add: firstPass_def)
  also have "\<dots> = (if tbl_name (tables ! k) \<noteq> toLowerCase (mdl_name (models ! k))
                   then [''@@map('' @ dq @ tbl_name (tables ! k) @ dq @ '')''] else [])"
    by (simp add: createBasicModel_def Let_def name)
  finally show "mdl_attributes (models ! k)
                = (if tbl_name (tables ! k) \<noteq> toLowerCase (mdl_name (models ! k))
                   then [''@@map('' @ dq @ tbl_name (tables ! k) @ dq @ '')''] else [])" .
qed

lemma map_tables_parsed:
  "parseSQL mapSQL = Inr \<lparr>res_tables = [accountTable, invoiceTable], res_enums = []\<rparr>"
  by code_simp

lemma map_tables_models:
  "convertTablesToModels [accountTable, invoiceTable] []
     = Inr [createBasicModel accountTable [], createBasicModel invoiceTable []]"
  by (simp add: convertTablesToModels_def secondPass_def processTable_def firstPass_def
        accountTable_def invoiceTable_def)

lemma map_tables_facts:
  "tablesHaveColumns [accountTable, invoiceTable]"
  "(1::nat) < length [accountTable, invoiceTable]"
  "tbl_name ([accountTable, invoiceTable] ! 1) = ''Invoice''"
  "toLowerCase (mdl_name ([createBasicModel accountTable [], createBasicModel invoiceTable []] ! 1))
     = ''invoice''"
  by code_simp+

theorem map_attribute_iff_differs_from_lowercased_model_name_witness:
  "tablesHaveColumns [accountTable, invoiceTable]
   \<and> convertTablesToModels [accountTable, invoiceTable] []
       = Inr [createBasicModel accountTable [], createBasicModel invoiceTable []]
   \<and> (1::nat) < length [accountTable, invoiceTable]
   \<and> tbl_name ([accountTable, invoiceTable] ! 1) = ''Invoice''
   \<and> toLowerCase (mdl_name ([createBasicModel accountTable [], createBasicModel invoiceTable []] ! 1))
       = ''invoice''
   \<and> mdl_attributes ([createBasicModel accountTable [], createBasicModel invoiceTable []] ! 1)
       = [''@@map('' @ dq @ ''Invoice'' @ dq @ '')'']"
proof -
  note inst = map_attribute_iff_differs_from_lowercased_model_name
                [of "[accountTable, invoiceTable]" "[]"]
  from inst have all: "\<forall>models k.
        convertTablesToModels [accountTable, invoiceTable] [] = Inr models
        \<longrightarrow> k < length [accountTable, invoiceTable]
        \<longrightarrow> k < length models
            \<and> mdl_attributes (models ! k)
                = (if tbl_name ([accountTable, invoiceTable] ! k) \<noteq> toLowerCase (mdl_name (models ! k))
                   then [''@@map('' @ dq @ tbl_name ([accountTable, invoiceTable] ! k) @ dq @ '')'']
                   else [])"
    by (rule conjunct2)
  have "mdl_attributes ([createBasicModel accountTable [], createBasicModel invoiceTable []] ! 1)
          = (if tbl_name ([accountTable, invoiceTable] ! 1)
                  \<noteq> toLowerCase (mdl_name ([createBasicModel accountTable [],
                                                createBasicModel invoiceTable []] ! 1))
             then [''@@map('' @ dq @ tbl_name ([accountTable, invoiceTable] ! 1) @ dq @ '')'']
             else [])"
    using all[rule_format, OF map_tables_models map_tables_facts(2)] by (rule conjunct2)
  then have "mdl_attributes ([createBasicModel accountTable [], createBasicModel invoiceTable []] ! 1)
       = [''@@map('' @ dq @ ''Invoice'' @ dq @ '')'']"
    unfolding map_tables_facts(3) map_tables_facts(4) by simp
  then show ?thesis
    using map_tables_models map_tables_facts
    by (intro conjI) assumption+
qed

text \<open>
  Claim C3 as stated fails in both directions: the table \<open>account\<close> differs from the name
  \<open>Account\<close> of its model and gets no mapping, and the table \<open>Invoice\<close> equals the name of
  its model and gets one.  (These are also the names that the editor gives to the two
  models.)
\<close>

theorem map_attribute_counterexample:
  "map_sum id (map (\<lambda>t. tbl_name t) \<circ> res_tables) (parseSQL mapSQL) = Inr [''account'', ''Invoice'']
   \<and> map_sum id (map (\<lambda>m. (mdl_name m, mdl_attributes m))) (modelsOf mapSQL)
       = Inr [(''Account'', []), (''Invoice'', [''@@map('' @ dq @ ''Invoice'' @ dq @ '')''])]
   \<and> map sqlToPrismaName [''account'', ''Invoice''] = [''Account'', ''Invoice'']"
  by (simp only: modelsOf_def map_tables_parsed) code_simp

subsection \<open>A foreign key whose target is not among the models\<close>

















subsection \<open>Two foreign keys to one table\<close>

text \<open>
  Claim C5 at a failing input.  The table \<open>matches\<close> has the foreign keys
  \<open>home_team_player_id\<close> and \<open>away_team_player_id\<close>, both to \<open>players\<close>.  Both have the
  column context \<open>team_player\<close>, so both back-relation fields of the model \<open>Players\<close> are
  named \<open>matchesTeamPlayer\<close>; the two relation names differ.
\<close>

theorem two_keys_same_back_relation_name:
  "relationSummary (modelsOf twoKeysSQL) =
     Inr [(''Players'', [(''matchesTeamPlayer'', ''Matches'', False, True),
                         (''matchesTeamPlayer'', ''Matches'', False, True)]),
          (''Matches'', [(''homeTeamPlayer'', ''Players'', True, False),
                         (''awayTeamPlayer'', ''Players'', True, False)])]
   \<and> map_sum id (map (\<lambda>m. concat (map fld_attributes (filter fld_isArray (mdl_fields m)))))
        (modelsOf twoKeysSQL)
       = Inr [[''@relation('' @ dq @ ''MatchesToPlayers'' @ dq @ '')'',
               ''@relation('' @ dq @ ''MatchesToPlayers_TeamPlayer'' @ dq @ '')''], []]
   \<and> extractForeignKeyContext ''home_team_player_id'' = ''team_player''
   \<and> extractForeignKeyContext ''away_team_player_id'' = ''team_player''"
  by (simp only: modelsOf_def two_keys_parsed) code_simp

section \<open>Properties of the parser\<close>

subsection \<open>A table-level FOREIGN KEY clause\<close>

text \<open>
  Claim C2 at a failing input.  The clause \<open>FOREIGN KEY (author_id) REFERENCES users(id)\<close>
  begins with the word \<open>FOREIGN\<close> and a space, so \<open>isConstraintDefinition\<close> is false on it
  and it is parsed as a column: the table gets a column \<open>FOREIGN\<close> of type \<open>KEY\<close> and a
  constraint on the column \<open>FOREIGN\<close>.  The dedicated matcher, had it been called, gives
  the constraint on \<open>author_id\<close>.
\<close>

theorem foreign_key_clause_parsed_as_column:
  "isConstraintDefinition fkClause = False
   \<and> parseConstraint fkClause = Inr (Some (sampleForeignKey [''author_id''] ''users''))
   \<and> parseSQL fkClauseSQL =
       Inr \<lparr>res_tables = [\<lparr>tbl_name = ''posts'',
           tbl_columns = [sampleColumn ''id'' ''INTEGER'' True False,
                          sampleColumn ''author_id'' ''INTEGER'' True False,
                          sampleColumn ''FOREIGN'' ''KEY'' True False],
           tbl_constraints = [sampleForeignKey [''FOREIGN''] ''users'']\<rparr>],
        res_enums = []\<rparr>"
  by code_simp

subsection \<open>No exception leaves the parser\<close>

lemma catchNull_no_error: "catchNull body \<noteq> Inl e"
  by (simp add: catchNull_def split: sum.splits)

lemma parseCreateEnum_no_error: "parseCreateEnum s \<noteq> Inl e"
  by (simp add: parseCreateEnum_def catchNull_no_error)

lemma parseCreateTable_no_error: "parseCreateTable s enums \<noteq> Inl e"
  by (simp add: parseCreateTable_def catchNull_no_error)

lemma parseConstraint_no_error: "parseConstraint d \<noteq> Inl e"
  by (simp add: parseConstraint_def catchNull_no_error)

lemma parseColumn_no_error: "parseColumn d cs enums \<noteq> Inl e"
  by (simp add: parseColumn_def split: prod.splits sum.splits)

lemma parseAlterTableForeignKey_no_error: "parseAlterTableForeignKey s tables \<noteq> Inl e"
  by (simp add: parseAlterTableForeignKey_def split: option.splits prod.splits)

lemma enumPass_returns: "\<exists>enums'. enumPass statements enums = Inr enums'"
proof (induction statements arbitrary: enums)
  case Nil
  show ?case by simp
next
  case (Cons s ss)
  show ?case
  proof (cases "parseCreateEnum (trim s)")
    case (Inl e)
    then show ?thesis using parseCreateEnum_no_error by blast
  next
    case (Inr r)
    then show ?thesis using Cons by (cases r) auto
  qed
qed

lemma tablePass_returns: "\<exists>tables'. tablePass enums statements tables = Inr tables'"
proof (induction statements arbitrary: tables)
  case Nil
  show ?case by simp
next
  case (Cons s ss)
  show ?case
  proof (cases "parseCreateTable (trim s) enums")
    case (Inl e)
    then show ?thesis using parseCreateTable_no_error by blast
  next
    case (Inr r)
    then show ?thesis using Cons by (cases r) auto
  qed
qed

lemma alterPass_returns: "\<exists>tables'. alterPass statements tables = Inr tables'"
proof (induction statements arbitrary: tables)
  case Nil
  show ?case by simp
next
  case (Cons s ss)
  show ?case
  proof (cases "parseAlterTableForeignKey (trim s) tables")
    case (Inl e)
    then show ?thesis using parseAlterTableForeignKey_no_error by blast
  next
    case (Inr r)
    then show ?thesis using Cons by auto
  qed
qed

lemma parseStatements_returns: "\<exists>result. parseStatements statements = Inr result"
proof -
  obtain enums where e: "enumPass statements [] = Inr enums"
    using enumPass_returns by blast
  obtain tables where t: "tablePass enums statements [] = Inr tables"
    using tablePass_returns by blast
  obtain tables' where a: "alterPass statements tables = Inr tables'"
    using alterPass_returns by blast
  show ?thesis by (simp add: parseStatements_def e t a)
qed

lemma parseSQL_returns: "\<exists>result. parseSQL sql = Inr result"
  by (simp add: parseSQL_def parseStatements_returns)

subsection \<open>Statements that the patterns do not match\<close>

text \<open>A statement is of at most one of the three kinds.\<close>

lemma startsWith_take: "startsWith s p = (take (length p) s = p)"
  by (induction s p rule: startsWith.induct) auto

lemma startsWith_conflict:
  assumes "startsWith u p" and "startsWith u q" and "length q \<le> length p"
  shows "take (length q) p = q"
proof -
  have "take (length q) p = take (length q) (take (length p) u)"
    using assms(1) by (simp add: startsWith_take)
  also have "\<dots> = take (length q) u" using assms(3) by (simp add: min_def)
  also have "\<dots> = q" using assms(2) by (simp add: startsWith_take)
  finally show ?thesis .
qed

lemma table_not_enum: "isTableStatement s \<Longrightarrow> \<not> isEnumStatement s"
  using startsWith_conflict[of "toUpperCase (trim s)" "''CREATE TABLE''" "''CREATE TYPE''"]
  by (auto simp: isTableStatement_def isEnumStatement_def Let_def)

lemma table_not_alter: "isTableStatement s \<Longrightarrow> \<not> isAlterStatement s"
  using startsWith_conflict[of "toUpperCase (trim s)" "''CREATE TABLE''" "''ALTER TABLE''"]
  by (auto simp: isTableStatement_def isAlterStatement_def Let_def)

lemma enum_not_alter: "isEnumStatement s \<Longrightarrow> \<not> isAlterStatement s"
  using startsWith_conflict[of "toUpperCase (trim s)" "''CREATE TYPE''" "''ALTER TABLE''"]
  by (auto simp: isEnumStatement_def isAlterStatement_def Let_def)

lemma enumPass_append:
  "enumPass (xs @ ys) enums =
     (case enumPass xs enums of Inl e \<Rightarrow> Inl e | Inr enums' \<Rightarrow> enumPass ys enums')"
  by (induction xs arbitrary: enums) (auto split: option.splits sum.splits)

lemma tablePass_append:
  "tablePass enums (xs @ ys) tables =
     (case tablePass enums xs tables of Inl e \<Rightarrow> Inl e | Inr tables' \<Rightarrow> tablePass enums ys tables')"
  by (induction xs arbitrary: tables) (auto split: option.splits sum.splits)

lemma alterPass_append:
  "alterPass (xs @ ys) tables =
     (case alterPass xs tables of Inl e \<Rightarrow> Inl e | Inr tables' \<Rightarrow> alterPass ys tables')"
  by (induction xs arbitrary: tables) (auto split: sum.splits)

lemma unmatched_enumPass:
  "unmatched bad \<Longrightarrow> enumPass (bad # after) enums = enumPass after enums"
  by (auto simp: unmatched_def parseCreateEnum_def parseCreateEnumBody_def catchNull_def)

lemma unmatched_tablePass:
  "unmatched bad \<Longrightarrow> tablePass enums (bad # after) tables = tablePass enums after tables"
  by (auto simp: unmatched_def parseCreateTable_def parseCreateTableBody_def catchNull_def
           split: option.splits)

lemma unmatched_alterPass:
  "unmatched bad \<Longrightarrow> alterPass (bad # after) tables = alterPass after tables"
  by (auto simp: unmatched_def parseAlterTableForeignKey_def)

lemma unmatched_is_skipped:
  assumes "unmatched bad"
  shows "parseStatements (before @ bad # after) = parseStatements (before @ after)"
proof -
  have e: "enumPass (before @ bad # after) [] = enumPass (before @ after) []"
    using unmatched_enumPass[OF assms] by (simp add: enumPass_append split: sum.splits)
  have t: "\<And>enums. tablePass enums (before @ bad # after) []
             = tablePass enums (before @ after) []"
    using unmatched_tablePass[OF assms] by (simp add: tablePass_append split: sum.splits)
  have a: "\<And>tables. alterPass (before @ bad # after) tables = alterPass (before @ after) tables"
    using unmatched_alterPass[OF assms] by (simp add: alterPass_append split: sum.splits)
  show ?thesis by (simp add: parseStatements_def e t a cong: sum.case_cong)
qed

text \<open>A statement without a closing parenthesis: the pattern \<open>/\(([\s\S]*)\)/\<close> of the
  content of a table does not match it.\<close>

lemma starK_dead:
  assumes body: "\<And>K st. body K st
        = (case fst st of [] \<Rightarrow> None | x # xs \<Rightarrow> if P x then K (xs, snd st) else None)"
    and dead: "\<And>st. CHR '')'' \<notin> set (fst st) \<Longrightarrow> k st = None"
  shows "CHR '')'' \<notin> set (fst st) \<Longrightarrow> starK n body k st = None"
proof (induction n arbitrary: st)
  case 0
  then show ?case by (simp add: dead)
next
  case (Suc n)
  have k: "k st = None" using Suc.prems by (rule dead)
  have "body (\<lambda>st'. if fst st' \<noteq> fst st then starK n body k st' else None) st = None"
  proof (cases "fst st")
    case Nil
    then show ?thesis unfolding body[of _ st] by simp
  next
    case (Cons x xs)
    have "CHR '')'' \<notin> set (fst (xs, snd st))" using Suc.prems Cons by simp
    then have "starK n body k (xs, snd st) = None" by (rule Suc.IH)
    then show ?thesis unfolding body[of _ st] using Cons by simp
  qed
  then show ?case by (simp add: k)
qed

lemma closing_parenthesis_dead:
  "CHR '')'' \<notin> set (fst st) \<Longrightarrow> rmatch (Lit '')'') Some (fst st, caps) = None"
  by (auto simp: Lit_def split: list.splits)

lemma content_group_dead:
  assumes "CHR '')'' \<notin> set (fst st)"
  shows "rmatch (Group 1 (Star AnyChar)) (rmatch (Lit '')'') Some) st = None"
proof -
  have "starK (length (fst st)) (rmatch AnyChar)
          (\<lambda>st'. rmatch (Lit '')'') Some
                    (fst st', (1, take (length (fst st) - length (fst st')) (fst st)) # snd st'))
          st = None"
  proof (rule starK_dead)
    show "\<And>K st. rmatch AnyChar K st
        = (case fst st of [] \<Rightarrow> None | x # xs \<Rightarrow> if True then K (xs, snd st) else None)"
      by (simp add: AnyChar_def)
    show "\<And>st'. CHR '')'' \<notin> set (fst st') \<Longrightarrow>
        rmatch (Lit '')'') Some
          (fst st', (1, take (length (fst st) - length (fst st')) (fst st)) # snd st') = None"
      by (rule closing_parenthesis_dead)
    show "CHR '')'' \<notin> set (fst st)" using assms .
  qed
  then show ?thesis by (subst rmatch.simps(7), subst rmatch.simps(5))
qed

lemma contentRe_matchHere:
  assumes "CHR '')'' \<notin> set s"
  shows "matchHere contentRe s = None"
proof -
  have unfold: "matchHere contentRe s
      = rmatch (Sym (\<lambda>c. c = CHR ''(''))
          (rmatch (Group 1 (Star AnyChar)) (rmatch (Lit '')'') Some)) (s, [])"
    by (simp add: matchHere_def contentRe_def Lit_def[of "''(''"] del: rmatch.simps)
       (simp only: rmatch.simps(3))
  show ?thesis
  proof (cases s)
    case Nil
    then show ?thesis by (subst unfold, subst rmatch.simps(2)) simp
  next
    case (Cons x xs)
    have "rmatch (Group 1 (Star AnyChar)) (rmatch (Lit '')'') Some) (xs, []) = None"
      using assms Cons by (intro content_group_dead) simp
    then show ?thesis
      using Cons by (subst unfold, subst rmatch.simps(2)) (simp del: rmatch.simps)
  qed
qed

lemma contentRe_search: "CHR '')'' \<notin> set s \<Longrightarrow> search contentRe s = None"
  by (induction s) (simp_all add: contentRe_matchHere)

lemma set_trim: "set (trim s) \<subseteq> set s"
  by (auto simp: trim_def dest!: set_dropWhileD)

lemma no_closing_parenthesis_unmatched:
  assumes "isTableStatement bad" and "CHR '')'' \<notin> set bad"
  shows "unmatched bad"
proof -
  have "CHR '')'' \<notin> set (trim bad)" using assms(2) set_trim[of bad] by auto
  then have "search contentRe (trim bad) = None" by (rule contentRe_search)
  then show ?thesis
    using assms(1) table_not_enum[of bad] table_not_alter[of bad]
    by (auto simp: unmatched_def)
qed

text \<open>A table that \<open>parseCreateTable\<close> builds from a statement of the input is in the
  result, whatever the other statements are.\<close>

lemma tableIn_member: "T \<in> set tables \<Longrightarrow> tableIn T tables"
  by (auto simp: tableIn_def list_ex_iff)

lemma tableIn_append: "tableIn T tables \<Longrightarrow> tableIn T (tables @ others)"
  by (auto simp: tableIn_def list_ex_iff)

lemma take_prefix_length: "take (length ys) xs = ys \<Longrightarrow> length ys \<le> length xs"
  by (metis length_take min.cobounded1)

lemma tableIn_addConstraint: "tableIn T tables \<Longrightarrow> tableIn T (addConstraint n c tables)"
proof (induction tables)
  case Nil
  then show ?case by simp
next
  case (Cons t ts)
  show ?case
  proof (cases "tbl_name t = n")
    case True
    then show ?thesis using Cons.prems
      by (auto simp: tableIn_def dest: take_prefix_length)
  next
    case False
    then show ?thesis using Cons by (auto simp: tableIn_def)
  qed
qed

lemma tablePass_keeps:
  "tablePass enums statements tables = Inr tables' \<Longrightarrow> tableIn T tables \<Longrightarrow> tableIn T tables'"
proof (induction statements arbitrary: tables)
  case Nil
  then show ?case by simp
next
  case (Cons s ss)
  then show ?case
    by (auto split: if_splits sum.splits option.splits intro: tableIn_append)
qed

lemma tablePass_contains:
  "tablePass enums statements tables = Inr tables' \<Longrightarrow> s \<in> set statements
     \<Longrightarrow> isTableStatement s \<Longrightarrow> parseCreateTable (trim s) enums = Inr (Some T)
     \<Longrightarrow> tableIn T tables'"
proof (induction statements arbitrary: tables)
  case Nil
  then show ?case by simp
next
  case (Cons s0 ss)
  show ?case
  proof (cases "s = s0")
    case True
    then have "tablePass enums ss (tables @ [T]) = Inr tables'"
      using Cons.prems by simp
    moreover have "tableIn T (tables @ [T])" by (simp add: tableIn_member)
    ultimately show ?thesis by (rule tablePass_keeps)
  next
    case False
    then have "s \<in> set ss" using Cons.prems(2) by simp
    then show ?thesis
      using Cons.IH Cons.prems(1,3,4)
      by (auto split: if_splits sum.splits option.splits)
  qed
qed

lemma alterPass_keeps:
  "alterPass statements tables = Inr tables' \<Longrightarrow> tableIn T tables \<Longrightarrow> tableIn T tables'"
proof (induction statements arbitrary: tables)
  case Nil
  then show ?case by simp
next
  case (Cons s ss)
  show ?case
  proof (cases "isAlterStatement s")
    case False
    then show ?thesis using Cons by simp
  next
    case True
    obtain mid where mid: "parseAlterTableForeignKey (trim s) tables = Inr mid"
      and rest: "alterPass ss mid = Inr tables'"
      using Cons.prems(1) True by (auto split: sum.splits)
    have "tableIn T mid"
      using mid Cons.prems(2)
      by (auto simp: parseAlterTableForeignKey_def split: option.splits prod.splits
               intro: tableIn_addConstraint)
    then show ?thesis using Cons.IH[OF rest] by simp
  qed
qed

lemma parsed_table_is_in_result:
  assumes "parseStatements statements = Inr result" and "s \<in> set statements"
    and "isTableStatement s" and "parseCreateTable (trim s) (res_enums result) = Inr (Some T)"
  shows "tableIn T (res_tables result)"
proof -
  obtain enums tables tables' where e: "enumPass statements [] = Inr enums"
    and t: "tablePass enums statements [] = Inr tables"
    and a: "alterPass statements tables = Inr tables'"
    and r: "result = \<lparr>res_tables = tables', res_enums = enums\<rparr>"
    using assms(1) by (auto simp: parseStatements_def split: sum.splits)
  have "tableIn T tables"
    using tablePass_contains[OF t assms(2) assms(3)] assms(4) by (simp add: r)
  then have "tableIn T tables'" using alterPass_keeps[OF a] by simp
  then show ?thesis by (simp add: r)
qed

text \<open>
  Claim C8, as amended.  The parser returns a result on every schema text: no exception
  leaves \<open>parseSQL\<close>.  A statement that no pattern of its kind matches yields no entity
  and parsing goes on: the result for a batch of statements with such a statement among
  them is the result for the batch without it; a \<open>CREATE TABLE\<close> statement with no
  closing parenthesis is such a statement.  And every \<open>CREATE TABLE\<close> statement of a batch
  that parses to a table has that table in the result of the batch, whatever the other
  statements are.
\<close>

theorem unmatched_statement_is_skipped:
  "(\<exists>result. parseSQL sql = Inr result)
   \<and> (unmatched bad
        \<longrightarrow> parseStatements (before @ bad # after) = parseStatements (before @ after))
   \<and> (isTableStatement bad \<and> CHR '')'' \<notin> set bad \<longrightarrow> unmatched bad)
   \<and> (\<forall>result s T.
        parseStatements statements = Inr result \<longrightarrow> s \<in> set statements
        \<longrightarrow> isTableStatement s
        \<longrightarrow> parseCreateTable (trim s) (res_enums result) = Inr (Some T)
        \<longrightarrow> tableIn T (res_tables result))"
proof (intro conjI allI impI)
  show "\<exists>result. parseSQL sql = Inr result" by (rule parseSQL_returns)
next
  assume "unmatched bad"
  then show "parseStatements (before @ bad # after) = parseStatements (before @ after)"
    by (rule unmatched_is_skipped)
next
  assume "isTableStatement bad \<and> CHR '')'' \<notin> set bad"
  then show "unmatched bad" using no_closing_parenthesis_unmatched by blast
next
  fix result s T
  assume "parseStatements statements = Inr result" and "s \<in> set statements"
    and "isTableStatement s" and "parseCreateTable (trim s) (res_enums result) = Inr (Some T)"
  then show "tableIn T (res_tables result)" by (rule parsed_table_is_in_result)
qed

lemma broken_statements:
  "splitStatements (cleanSQL brokenSQL) = [] @ brokenStatement # [usersStatement]"
  by code_simp

lemma broken_facts:
  "isTableStatement brokenStatement"
  "CHR '')'' \<notin> set brokenStatement"
  "usersStatement \<in> set ([] @ [usersStatement])"
  "isTableStatement usersStatement"
  by code_simp+

lemma users_parsed:
  "parseStatements ([] @ [usersStatement]) = Inr \<lparr>res_tables = [usersTable], res_enums = []\<rparr>"
  "parseCreateTable (trim usersStatement) (res_enums \<lparr>res_tables = [usersTable], res_enums = []\<rparr>)
     = Inr (Some usersTable)"
  by code_simp+

theorem unmatched_statement_is_skipped_witness:
  "splitStatements (cleanSQL brokenSQL) = [] @ brokenStatement # [usersStatement]
   \<and> isTableStatement brokenStatement
   \<and> CHR '')'' \<notin> set brokenStatement
   \<and> unmatched brokenStatement
   \<and> parseStatements ([] @ brokenStatement # [usersStatement]) = parseStatements ([] @ [usersStatement])
   \<and> parseSQL brokenSQL = Inr \<lparr>res_tables = [usersTable], res_enums = []\<rparr>
   \<and> parseStatements ([] @ [usersStatement]) = Inr \<lparr>res_tables = [usersTable], res_enums = []\<rparr>
   \<and> usersStatement \<in> set ([] @ [usersStatement])
   \<and> isTableStatement usersStatement
   \<and> parseCreateTable (trim usersStatement) (res_enums \<lparr>res_tables = [usersTable], res_enums = []\<rparr>)
       = Inr (Some usersTable)
   \<and> tableIn usersTable (res_tables \<lparr>res_tables = [usersTable], res_enums = []\<rparr>)"
proof -
  note inst = unmatched_statement_is_skipped
                [of brokenSQL brokenStatement "[]" "[usersStatement]" "[] @ [usersStatement]"]
  from inst broken_facts(1) broken_facts(2) have bad: "unmatched brokenStatement"
    by blast
  from inst bad have skip:
    "parseStatements ([] @ brokenStatement # [usersStatement]) = parseStatements ([] @ [usersStatement])"
    by blast
  from inst users_parsed broken_facts(3) broken_facts(4)
  have kept: "tableIn usersTable (res_tables \<lparr>res_tables = [usersTable], res_enums = []\<rparr>)"
    by blast
  have whole: "parseSQL brokenSQL = Inr \<lparr>res_tables = [usersTable], res_enums = []\<rparr>"
    unfolding parseSQL_def broken_statements skip by (rule users_parsed(1))
  show ?thesis
    using broken_statements broken_facts bad skip whole users_parsed kept
    by (intro conjI) assumption+
qed

text \<open>
  Claim C8 as stated fails: a malformed statement can yield an entity.  In the first
  statement of the text below the parenthesis of \<open>VARCHAR(50\<close> is not closed; the statement
  yields the table \<open>broken\<close>, with a column of type \<open>VARCHAR(50\<close>.
\<close>

theorem malformed_statement_counterexample:
  "splitStatements (cleanSQL brokenColumnSQL)
     = [''CREATE TABLE broken (id INTEGER, name VARCHAR(50)'', usersStatement]
   \<and> parseSQL brokenColumnSQL
       = Inr \<lparr>res_tables =
                [\<lparr>tbl_name = ''broken'',
                  tbl_columns = [sampleColumn ''id'' ''INTEGER'' True False,
                                 sampleColumn ''name'' ''VARCHAR(50'' True False],
                  tbl_constraints = []\<rparr>,
                 usersTable],
              res_enums = []\<rparr>"
  by code_simp

section \<open>Properties of the pipeline\<close>

subsection \<open>Every constraint that the parser builds has a column\<close>

lemma splitChar_nonempty: "splitChar d s \<noteq> []"
  by (induction s) (auto split: list.splits)

lemma parseForeignKeyClause_hasColumn:
  "parseForeignKeyClause upper d = Inr (Some c) \<Longrightarrow> hasColumn c"
  by (auto simp: parseForeignKeyClause_def onDefined_def hasColumn_def splitChar_nonempty
           split: if_splits option.splits)

lemma parseConstraint_hasColumn: "parseConstraint d = Inr (Some c) \<Longrightarrow> hasColumn c"
  by (auto simp: parseConstraint_def parseConstraintBody_def catchNull_def onDefined_def
                 hasColumn_def Let_def splitChar_nonempty
           split: if_splits option.splits sum.splits
           dest: parseForeignKeyClause_hasColumn[unfolded hasColumn_def])

lemma inlineReferences_hasColumn:
  "inlineReferences d n cs = Inr cs' \<Longrightarrow> list_all hasColumn cs \<Longrightarrow> list_all hasColumn cs'"
  by (auto simp: inlineReferences_def onDefined_def hasColumn_def split: option.splits)

lemma parseColumnRest_snd:
  "snd (parseColumnRest d n r cs enums) = cs \<or>
   inlineReferences d n cs = Inr (snd (parseColumnRest d n r cs enums))"
proof (cases "splitRegex whitespaceRe [] r")
  case Nil
  then show ?thesis by (simp add: parseColumnRest_def)
next
  case (Cons type0 rest)
  show ?thesis
  proof (cases "case search lengthRe type0 of None \<Rightarrow> Some type0 | Some m \<Rightarrow> cap m 1")
    case None
    show ?thesis
    proof (cases "inlineReferences d n cs")
      case (Inl e)
      then show ?thesis using Cons None by (simp add: parseColumnRest_def Let_def)
    next
      case (Inr cs')
      then show ?thesis using Cons None by (simp add: parseColumnRest_def Let_def)
    qed
  next
    case (Some type2)
    show ?thesis
    proof (cases "inlineReferences d n cs")
      case (Inl e)
      then show ?thesis using Cons Some by (simp add: parseColumnRest_def Let_def)
    next
      case (Inr cs')
      then show ?thesis using Cons Some by (simp add: parseColumnRest_def Let_def)
    qed
  qed
qed

lemma parseColumnRest_hasColumn:
  "list_all hasColumn cs \<Longrightarrow> list_all hasColumn (snd (parseColumnRest d n r cs enums))"
  using parseColumnRest_snd[of d n r cs enums]
    inlineReferences_hasColumn[of d n cs "snd (parseColumnRest d n r cs enums)"]
  by auto

lemma parseColumnBody_hasColumn:
  "list_all hasColumn cs \<Longrightarrow> list_all hasColumn (snd (parseColumnBody d cs enums))"
  by (auto simp: parseColumnBody_def Let_def parseColumnRest_hasColumn split: option.splits)

lemma parseColumn_hasColumn:
  "parseColumn d cs enums = Inr (column, cs') \<Longrightarrow> list_all hasColumn cs
     \<Longrightarrow> list_all hasColumn cs'"
  using parseColumnBody_hasColumn[of cs d enums]
  by (auto simp: parseColumn_def split: prod.splits sum.splits)

lemma parsePart_hasColumn:
  assumes "parsePart enums st part = Inr st'" and "list_all hasColumn (snd st)"
  shows "list_all hasColumn (snd st')"
proof (cases "isConstraintDefinition (trim part)")
  case True
  then show ?thesis using assms
    by (auto simp: parsePart_def Let_def split: option.splits sum.splits
             dest: parseConstraint_hasColumn)
next
  case False
  then show ?thesis using assms
    by (auto simp: parsePart_def Let_def split: option.splits sum.splits prod.splits
             dest: parseColumn_hasColumn)
qed

lemma forEachE_parsePart_hasColumn:
  "forEachE (parsePart enums) parts st = Inr st' \<Longrightarrow> list_all hasColumn (snd st)
     \<Longrightarrow> list_all hasColumn (snd st')"
proof (induction parts arbitrary: st)
  case Nil
  then show ?case by simp
next
  case (Cons p ps)
  then show ?case
    by (auto split: sum.splits dest: parsePart_hasColumn)
qed

lemma parseCreateTable_hasColumn:
  "parseCreateTable s enums = Inr (Some t) \<Longrightarrow> list_all hasColumn (tbl_constraints t)"
  using forEachE_parsePart_hasColumn[of enums _ "([], [])"]
  by (auto simp: parseCreateTable_def parseCreateTableBody_def catchNull_def onDefined_def
           split: option.splits sum.splits)

lemma tablePass_hasColumn:
  "tablePass enums statements tables = Inr tables' \<Longrightarrow> tablesHaveColumns tables
     \<Longrightarrow> tablesHaveColumns tables'"
proof (induction statements arbitrary: tables)
  case Nil
  then show ?case by simp
next
  case (Cons s ss)
  show ?case
  proof (cases "isTableStatement s")
    case False
    then show ?thesis using Cons by simp
  next
    case True
    show ?thesis
    proof (cases "parseCreateTable (trim s) enums")
      case (Inl e)
      then show ?thesis using Cons.prems True by simp
    next
      case (Inr r)
      show ?thesis
      proof (cases r)
        case None
        then show ?thesis using Cons Inr True by simp
      next
        case (Some t)
        have "list_all hasColumn (tbl_constraints t)"
          using parseCreateTable_hasColumn Inr Some by blast
        then have "tablesHaveColumns (tables @ [t])"
          using Cons.prems(2) by (simp add: tablesHaveColumns_def)
        moreover have "tablePass enums ss (tables @ [t]) = Inr tables'"
          using Cons.prems(1) True Inr Some by simp
        ultimately show ?thesis using Cons.IH by blast
      qed
    qed
  qed
qed

lemma addConstraint_hasColumn:
  "tablesHaveColumns tables \<Longrightarrow> hasColumn c \<Longrightarrow> tablesHaveColumns (addConstraint n c tables)"
  by (induction tables) (auto simp: tablesHaveColumns_def)

lemma parseAlterTableForeignKey_hasColumn:
  "parseAlterTableForeignKey s tables = Inr tables' \<Longrightarrow> tablesHaveColumns tables
     \<Longrightarrow> tablesHaveColumns tables'"
  by (auto simp: parseAlterTableForeignKey_def hasColumn_def split: option.splits
           intro!: addConstraint_hasColumn)

lemma alterPass_hasColumn:
  "alterPass statements tables = Inr tables' \<Longrightarrow> tablesHaveColumns tables
     \<Longrightarrow> tablesHaveColumns tables'"
proof (induction statements arbitrary: tables)
  case Nil
  then show ?case by simp
next
  case (Cons s ss)
  then show ?case
    by (auto split: if_splits sum.splits dest: parseAlterTableForeignKey_hasColumn)
qed

lemma parseSQL_hasColumn: "parseSQL sql = Inr result \<Longrightarrow> tablesHaveColumns (res_tables result)"
proof -
  assume "parseSQL sql = Inr result"
  then obtain enums tables tables' where
    t: "tablePass enums (splitStatements (cleanSQL sql)) [] = Inr tables"
    and a: "alterPass (splitStatements (cleanSQL sql)) tables = Inr tables'"
    and r: "result = \<lparr>res_tables = tables', res_enums = enums\<rparr>"
    by (auto simp: parseSQL_def parseStatements_def split: sum.splits)
  have "tablesHaveColumns []" by (simp add: tablesHaveColumns_def)
  then have "tablesHaveColumns tables" using tablePass_hasColumn[OF t] by simp
  then have "tablesHaveColumns tables'" using alterPass_hasColumn[OF a] by simp
  then show ?thesis by (simp add: r)
qed

text \<open>So the pipeline returns models on every schema text.\<close>

lemma modelsOf_returns: "\<exists>models. modelsOf sql = Inr models"
proof -
  obtain result where r: "parseSQL sql = Inr result"
    using parseSQL_returns by blast
  obtain models where "convertTablesToModels (res_tables result)
      (convertEnumsToPrismaEnums (res_enums result)) = Inr models"
    using convertTablesToModels_returns[OF parseSQL_hasColumn[OF r]] by blast
  then show ?thesis by (simp add: modelsOf_def r)
qed

subsection \<open>Model names\<close>

text \<open>
  Claim C1 at a failing input.  For the schema text of the scenario, with the tables
  \<open>users\<close> and \<open>posts\<close>, the models are named \<open>Users\<close> and \<open>Posts\<close>: the generator puts the
  name of the table in PascalCase and does not make it singular.  The function with which
  the editor finds the model of a table gives \<open>User\<close> and \<open>Post\<close> for these tables.
\<close>

theorem scenario_model_names_not_singular:
  "map_sum id (map tbl_name \<circ> res_tables) (parseSQL scenarioSQL) = Inr [''users'', ''posts'']
   \<and> map_sum id (map mdl_name) (modelsOf scenarioSQL) = Inr [''Users'', ''Posts'']
   \<and> map sqlToPrismaName [''users'', ''posts''] = [''User'', ''Post'']"
  by (simp only: modelsOf_def scenario_parsed) code_simp

subsection \<open>The scenario of two related tables\<close>

text \<open>
  Claim C4.  For the schema text of the scenario, the model of \<open>users\<close> has one relation
  field, the array-typed back-relation field \<open>posts\<close>; the model of \<open>posts\<close> has one
  relation field, the singular forward field \<open>author\<close>, whose type is the name of the
  model of \<open>users\<close> and which is optional as the column \<open>author_id\<close> is nullable.
\<close>

theorem scenario_relation_fields:
  "parseSQL scenarioSQL = Inr \<lparr>res_tables = [scenarioUsers, postsTable], res_enums = []\<rparr>
   \<and> relationSummary (modelsOf scenarioSQL)
       = Inr [(toPascalCase ''users'', [(''posts'', toPascalCase ''posts'', False, True)]),
              (toPascalCase ''posts'',
               [(''author'', toPascalCase ''users'',
                 col_nullable (sampleColumn ''author_id'' ''INTEGER'' True False), False)])]
   \<and> find (\<lambda>c. col_name c = ''author_id'') (tbl_columns postsTable)
       = Some (sampleColumn ''author_id'' ''INTEGER'' True False)
   \<and> col_nullable (sampleColumn ''author_id'' ''INTEGER'' True False) = True"
  by (simp only: modelsOf_def scenario_parsed) code_simp

end
